theory Spec2Isabelle
  imports Complex_Main "HOL-Library.AList"
begin

section \<open>The Smartlead webhook bridge of \<^verbatim>\<open>index.ts\<close>\<close>

text \<open>
  A shallow embedding of the inbound webhook pipeline of \<^verbatim>\<open>index.ts\<close>: the helpers
  \<^verbatim>\<open>trimString\<close>, \<^verbatim>\<open>asRecord\<close>, \<^verbatim>\<open>coerceNumber\<close>, \<^verbatim>\<open>firstNonEmptyString\<close>, the
  context extractor, the event key, the body reader, the token extractor, the hook
  forwarder and the route handler registered by \<^verbatim>\<open>registerSmartleadWebhookRoute\<close>.
\<close>

subsection \<open>JavaScript values\<close>

text \<open>
  A JavaScript number is a finite double (carried as the rational it denotes; the sign
  of zero is not kept), NaN, or one of the two infinities.
\<close>

datatype number = Finite rat | NaN | PosInfinity | NegInfinity

text \<open>
  A value of TypeScript's \<^verbatim>\<open>unknown\<close>, as far as JSON and a missing property can
  produce one. A string is the list of its code units; the character type of the model
  has 256 values, so the strings of the model are those whose code units are below 256.
  A \<^verbatim>\<open>JsonObject\<close> is the association list of its own properties.
\<close>

datatype jsvalue =
    JUndefined
  | JNull
  | JBoolean bool
  | JNumber number
  | JString string
  | JArray "jsvalue list"
  | JObject "(string \<times> jsvalue) list"

type_synonym JsonObject = "(string \<times> jsvalue) list"

text \<open>Reading a property \<^verbatim>\<open>obj.key\<close> of an object: \<^verbatim>\<open>undefined\<close> when it has none.\<close>

definition getProp :: "JsonObject \<Rightarrow> string \<Rightarrow> jsvalue" where
  "getProp obj key = (case map_of obj key of None \<Rightarrow> JUndefined | Some v \<Rightarrow> v)"

text \<open>The truth value of a JavaScript value in a condition (\<^verbatim>\<open>Boolean(v)\<close>).\<close>

fun truthy :: "jsvalue \<Rightarrow> bool" where
  "truthy JUndefined = False"
| "truthy JNull = False"
| "truthy (JBoolean b) = b"
| "truthy (JNumber n) = (n \<noteq> NaN \<and> n \<noteq> Finite 0)"
| "truthy (JString s) = (s \<noteq> [])"
| "truthy (JArray xs) = True"
| "truthy (JObject kvs) = True"

text \<open>A value that is a string or absent: \<^verbatim>\<open>string | undefined\<close> and \<^verbatim>\<open>string | null\<close>.\<close>

definition orUndefined :: "string option \<Rightarrow> jsvalue" where
  "orUndefined v = (case v of None \<Rightarrow> JUndefined | Some s \<Rightarrow> JString s)"

definition orNull :: "string option \<Rightarrow> jsvalue" where
  "orNull v = (case v of None \<Rightarrow> JNull | Some s \<Rightarrow> JString s)"

subsection \<open>The functions of the runtime\<close>

text \<open>
  The built-in functions the code calls and whose definition is not part of the
  repository are parameters of the model: \<^verbatim>\<open>String.prototype.toUpperCase\<close>,
  \<^verbatim>\<open>Number(string)\<close>, the conversion of a number to a string that \<^verbatim>\<open>Array.prototype.join\<close>
  applies, the hexadecimal SHA-256 digest, \<^verbatim>\<open>JSON.parse\<close> (\<open>None\<close> when it throws), the
  UTF-8 decoding of a buffer, and the query parameters of \<^verbatim>\<open>new URL(url, base)\<close>
  (\<open>None\<close> when the constructor throws).
\<close>

record runtime =
  toUpperCase :: "string \<Rightarrow> string"
  toNumber :: "string \<Rightarrow> number"
  numberToString :: "number \<Rightarrow> string"
  sha256hex :: "string \<Rightarrow> string"
  JSON_parse :: "string \<Rightarrow> jsvalue option"
  utf8ToString :: "string \<Rightarrow> string"
  urlSearchParams :: "string \<Rightarrow> string \<Rightarrow> (string \<times> string) list option"

subsection \<open>String and number helpers\<close>

text \<open>
  The code units that \<^verbatim>\<open>String.prototype.trim\<close> and the class \<^verbatim>\<open>\s\<close> of a regular
  expression treat as white space, among those below 256: TAB, LF, VT, FF, CR, SP, NBSP.
\<close>

definition isWhiteSpace :: "char \<Rightarrow> bool" where
  "isWhiteSpace c \<longleftrightarrow>
     c \<in> set [CHR 0x09, CHR 0x0A, CHR 0x0B, CHR 0x0C, CHR 0x0D, CHR 0x20, CHR 0xA0]"

definition trim :: "string \<Rightarrow> string" where
  "trim s = rev (dropWhile isWhiteSpace (rev (dropWhile isWhiteSpace s)))"

definition trimString :: "jsvalue \<Rightarrow> string" where
  "trimString v = (case v of JString s \<Rightarrow> trim s | _ \<Rightarrow> [])"

definition asRecord :: "jsvalue \<Rightarrow> JsonObject" where
  "asRecord v = (case v of JObject kvs \<Rightarrow> kvs | _ \<Rightarrow> [])"

definition isFinite :: "number \<Rightarrow> bool" where
  "isFinite n = (case n of Finite q \<Rightarrow> True | _ \<Rightarrow> False)"

definition coerceNumber :: "runtime \<Rightarrow> jsvalue \<Rightarrow> number option" where
  "coerceNumber rt v =
     (case v of
        JNumber n \<Rightarrow> if isFinite n then Some n else None
      | JString s \<Rightarrow>
          if trim s \<noteq> [] then
            (let parsed = toNumber rt s in if isFinite parsed then Some parsed else None)
          else None
      | _ \<Rightarrow> None)"

fun firstNonEmptyString :: "jsvalue list \<Rightarrow> string" where
  "firstNonEmptyString [] = []"
| "firstNonEmptyString (v # values) =
     (let t = trimString v in if t \<noteq> [] then t else firstNonEmptyString values)"

text \<open>The operator \<^verbatim>\<open>a ?? b\<close> on optional numbers.\<close>

definition nullish :: "'a option \<Rightarrow> 'a option \<Rightarrow> 'a option" where
  "nullish a b = (case a of None \<Rightarrow> b | Some x \<Rightarrow> Some x)"

subsection \<open>The context extractor\<close>

record ReplyWebhookContext =
  eventType :: string
  campaignId :: "number option"
  leadId :: "number option"
  leadMapId :: "number option"
  leadEmail :: "string option"
  responderEmail :: "string option"
  subject :: "string option"
  previewText :: "string option"
  eventTimestamp :: "string option"
  statsId :: "string option"
  messageId :: "string option"
  appUrl :: "string option"
  description :: "string option"
  secretKey :: "string option"
  leadCorrespondence :: "JsonObject option"
  payload :: JsonObject

definition extractReplyWebhookContext :: "runtime \<Rightarrow> JsonObject \<Rightarrow> ReplyWebhookContext" where
  "extractReplyWebhookContext rt p =
     (let lc = asRecord (getProp p ''leadCorrespondence'') in
      \<lparr> eventType = toUpperCase rt (firstNonEmptyString
          [getProp p ''event_type'', getProp p ''eventType'', getProp p ''type'']),
        campaignId = coerceNumber rt (getProp p ''campaign_id''),
        leadId = nullish (coerceNumber rt (getProp p ''sl_email_lead_id''))
                         (coerceNumber rt (getProp p ''lead_id'')),
        leadMapId = nullish (coerceNumber rt (getProp p ''sl_email_lead_map_id''))
                            (coerceNumber rt (getProp p ''lead_map_id'')),
        leadEmail = Some (firstNonEmptyString
          [getProp lc ''targetLeadEmail'', getProp p ''sl_lead_email'', getProp p ''email'',
           getProp p ''lead_email'']),
        responderEmail = Some (firstNonEmptyString
          [getProp lc ''replyReceivedFrom'', getProp p ''from_email'', getProp p ''reply_from'',
           getProp p ''to_email'']),
        subject = Some (firstNonEmptyString [getProp p ''subject'']),
        previewText = Some (firstNonEmptyString
          [getProp p ''preview_text'', getProp p ''preview'', getProp p ''snippet'']),
        eventTimestamp = Some (firstNonEmptyString
          [getProp p ''event_timestamp'', getProp p ''time_replied'', getProp p ''timestamp'']),
        statsId = Some (firstNonEmptyString [getProp p ''stats_id'']),
        messageId = Some (firstNonEmptyString [getProp p ''message_id'']),
        appUrl = Some (firstNonEmptyString [getProp p ''app_url'', getProp p ''ui_master_inbox_link'']),
        description = Some (firstNonEmptyString [getProp p ''description'']),
        secretKey = Some (firstNonEmptyString [getProp p ''secret_key'']),
        leadCorrespondence = (if lc \<noteq> [] then Some lc else None),
        payload = p \<rparr>)"

subsection \<open>The property reads of the extractor, with their failure\<close>

text \<open>
  Reading a property \<^verbatim>\<open>v.key\<close> of any value, as JavaScript evaluates it: of \<^verbatim>\<open>undefined\<close>
  and of \<^verbatim>\<open>null\<close> it throws a \<^verbatim>\<open>TypeError\<close>; of an object it is the property of the
  object; of a boolean, a number, a string or an array it is \<^verbatim>\<open>undefined\<close> for every key
  the extractor reads, none of which names a property of the prototypes of these values.
\<close>

datatype js_error = TypeError

definition readProperty :: "jsvalue \<Rightarrow> string \<Rightarrow> js_error + jsvalue" where
  "readProperty v key =
     (case v of
        JUndefined \<Rightarrow> Inl TypeError
      | JNull \<Rightarrow> Inl TypeError
      | JObject kvs \<Rightarrow> Inr (getProp kvs key)
      | _ \<Rightarrow> Inr JUndefined)"

text \<open>Evaluation goes on with the value of a step unless the step threw.\<close>

definition bindE :: "js_error + 'a \<Rightarrow> ('a \<Rightarrow> js_error + 'b) \<Rightarrow> js_error + 'b" where
  "bindE m f = (case m of Inl e \<Rightarrow> Inl e | Inr x \<Rightarrow> f x)"

text \<open>The arguments of a call, property reads evaluated from left to right.\<close>

fun readAll :: "(jsvalue \<times> string) list \<Rightarrow> js_error + jsvalue list" where
  "readAll [] = Inr []"
| "readAll ((v, key) # rest) =
     bindE (readProperty v key) (\<lambda>x. bindE (readAll rest) (\<lambda>xs. Inr (x # xs)))"

text \<open>\<^verbatim>\<open>firstNonEmptyString(a.k1, b.k2, ...)\<close>.\<close>

definition stringOf :: "(jsvalue \<times> string) list \<Rightarrow> js_error + string" where
  "stringOf reads = bindE (readAll reads) (\<lambda>vs. Inr (firstNonEmptyString vs))"

text \<open>
  \<^verbatim>\<open>coerceNumber(v.k1) ?? coerceNumber(v.k2)\<close>: the second property is read only when the
  first does not coerce.
\<close>

fun numberOf :: "runtime \<Rightarrow> jsvalue \<Rightarrow> string list \<Rightarrow> js_error + number option" where
  "numberOf rt v [] = Inr None"
| "numberOf rt v (key # keys) =
     bindE (readProperty v key)
       (\<lambda>x. case coerceNumber rt x of Some n \<Rightarrow> Inr (Some n) | None \<Rightarrow> numberOf rt v keys)"

text \<open>
  \<^verbatim>\<open>extractReplyWebhookContext\<close> once more, every property read of its body evaluated
  with \<open>readProperty\<close> in the order of the source: the reads of \<^verbatim>\<open>payload\<close> are reads of
  the object the function is given, the reads of \<^verbatim>\<open>leadCorrespondence\<close> are reads of what
  \<^verbatim>\<open>asRecord\<close> returned for \<^verbatim>\<open>payload.leadCorrespondence\<close>.
\<close>

definition extractReplyWebhookContextChecked ::
  "runtime \<Rightarrow> JsonObject \<Rightarrow> js_error + ReplyWebhookContext"
where
  "extractReplyWebhookContextChecked rt p =
     (let pv = JObject p in
      bindE (readProperty pv ''leadCorrespondence'') (\<lambda>lcv.
      let lc = asRecord lcv; lv = JObject lc in
      bindE (stringOf [(pv, ''event_type''), (pv, ''eventType''), (pv, ''type'')]) (\<lambda>et.
      bindE (numberOf rt pv [''campaign_id'']) (\<lambda>cid.
      bindE (numberOf rt pv [''sl_email_lead_id'', ''lead_id'']) (\<lambda>lid.
      bindE (numberOf rt pv [''sl_email_lead_map_id'', ''lead_map_id'']) (\<lambda>mid.
      bindE (stringOf [(lv, ''targetLeadEmail''), (pv, ''sl_lead_email''), (pv, ''email''),
                       (pv, ''lead_email'')]) (\<lambda>le.
      bindE (stringOf [(lv, ''replyReceivedFrom''), (pv, ''from_email''), (pv, ''reply_from''),
                       (pv, ''to_email'')]) (\<lambda>re.
      bindE (stringOf [(pv, ''subject'')]) (\<lambda>su.
      bindE (stringOf [(pv, ''preview_text''), (pv, ''preview''), (pv, ''snippet'')]) (\<lambda>pt.
      bindE (stringOf [(pv, ''event_timestamp''), (pv, ''time_replied''), (pv, ''timestamp'')])
        (\<lambda>ts.
      bindE (stringOf [(pv, ''stats_id'')]) (\<lambda>si.
      bindE (stringOf [(pv, ''message_id'')]) (\<lambda>mi.
      bindE (stringOf [(pv, ''app_url''), (pv, ''ui_master_inbox_link'')]) (\<lambda>au.
      bindE (stringOf [(pv, ''description'')]) (\<lambda>de.
      bindE (stringOf [(pv, ''secret_key'')]) (\<lambda>sk.
      Inr \<lparr> eventType = toUpperCase rt et, campaignId = cid, leadId = lid, leadMapId = mid,
            leadEmail = Some le, responderEmail = Some re, subject = Some su,
            previewText = Some pt, eventTimestamp = Some ts, statsId = Some si,
            messageId = Some mi, appUrl = Some au, description = Some de,
            secretKey = Some sk,
            leadCorrespondence = (if lc \<noteq> [] then Some lc else None),
            payload = p \<rparr>))))))))))))))))"

subsection \<open>The event key\<close>

text \<open>An optional string in a condition: \<^verbatim>\<open>undefined\<close> and the empty string are false.\<close>

definition present :: "string option \<Rightarrow> bool" where
  "present v = (case v of None \<Rightarrow> False | Some s \<Rightarrow> s \<noteq> [])"

text \<open>\<^verbatim>\<open>Array.prototype.join\<close> on strings.\<close>

fun joinWith :: "string \<Rightarrow> string list \<Rightarrow> string" where
  "joinWith sep [] = []"
| "joinWith sep [x] = x"
| "joinWith sep (x # y # ys) = x @ sep @ joinWith sep (y # ys)"

text \<open>An element \<^verbatim>\<open>n ?? ""\<close> and \<^verbatim>\<open>s ?? ""\<close> of the joined array, as \<^verbatim>\<open>join\<close> prints it.\<close>

definition numberOrEmpty :: "runtime \<Rightarrow> number option \<Rightarrow> string" where
  "numberOrEmpty rt v = (case v of None \<Rightarrow> [] | Some n \<Rightarrow> numberToString rt n)"

definition stringOrEmpty :: "string option \<Rightarrow> string" where
  "stringOrEmpty v = (case v of None \<Rightarrow> [] | Some s \<Rightarrow> s)"

text \<open>The array joined in \<^verbatim>\<open>makeWebhookEventKey\<close>.\<close>

definition eventKeyTuple :: "runtime \<Rightarrow> ReplyWebhookContext \<Rightarrow> string" where
  "eventKeyTuple rt ctx =
     joinWith ''|''
       [eventType ctx, numberOrEmpty rt (campaignId ctx), numberOrEmpty rt (leadId ctx),
        stringOrEmpty (leadEmail ctx), stringOrEmpty (eventTimestamp ctx)]"

text \<open>The local \<^verbatim>\<open>base\<close> of \<^verbatim>\<open>makeWebhookEventKey\<close>.\<close>

definition eventKeyBase :: "runtime \<Rightarrow> ReplyWebhookContext \<Rightarrow> string" where
  "eventKeyBase rt ctx =
     (if present (statsId ctx) then stringOrEmpty (statsId ctx)
      else if present (messageId ctx) then stringOrEmpty (messageId ctx)
      else eventKeyTuple rt ctx)"

definition makeWebhookEventKey :: "runtime \<Rightarrow> ReplyWebhookContext \<Rightarrow> string" where
  "makeWebhookEventKey rt ctx = sha256hex rt (eventKeyBase rt ctx)"

subsection \<open>Configuration\<close>

text \<open>
  The options of \<^verbatim>\<open>SmartleadPluginConfig\<close> that the webhook route reads. The record
  comes from \<^verbatim>\<open>asRecord(api.pluginConfig)\<close>, so an option holds any value; the variables
  of \<^verbatim>\<open>process.env\<close> are strings or absent.
\<close>

record SmartleadPluginConfig =
  inboundWebhookPath :: jsvalue
  webhookSecret :: jsvalue
  replyEventTypes :: jsvalue
  openclawAgentHookUrl :: jsvalue
  openclawHookToken :: jsvalue
  dedupeTtlSeconds :: jsvalue
  logWebhookPayload :: jsvalue

record environment =
  SMARTLEAD_WEBHOOK_PATH :: "string option"
  SMARTLEAD_WEBHOOK_SECRET :: "string option"
  OPENCLAW_SMARTLEAD_AGENT_HOOK_URL :: "string option"
  OPENCLAW_HOOKS_TOKEN :: "string option"
  SMARTLEAD_DEDUPE_TTL_SECONDS :: "string option"

definition DEFAULT_INBOUND_WEBHOOK_PATH :: string where
  "DEFAULT_INBOUND_WEBHOOK_PATH = ''/smartlead/webhook''"

definition DEFAULT_REPLY_EVENT_TYPES :: "string list" where
  "DEFAULT_REPLY_EVENT_TYPES = [''EMAIL_REPLY'']"

definition DEFAULT_DEDUPE_TTL_SECONDS :: rat where
  "DEFAULT_DEDUPE_TTL_SECONDS = 15 * 60"

definition MAX_WEBHOOK_BODY_BYTES :: int where
  "MAX_WEBHOOK_BODY_BYTES = 512 * 1024"

text \<open>The operator \<^verbatim>\<open>a || b\<close> on strings.\<close>

definition orElse :: "string \<Rightarrow> string \<Rightarrow> string" where
  "orElse a b = (if a \<noteq> [] then a else b)"

definition normalizePath :: "string \<Rightarrow> string" where
  "normalizePath path =
     (let trimmed = trim path in
      case trimmed of
        [] \<Rightarrow> ''/''
      | c # _ \<Rightarrow> if c = CHR ''/'' then trimmed else CHR ''/'' # trimmed)"

text \<open>
  \<^verbatim>\<open>Array.from(new Set(values))\<close>: the first occurrence of each value, in order.
\<close>

definition uniqueInOrder :: "string list \<Rightarrow> string list" where
  "uniqueInOrder values = rev (remdups (rev values))"

definition normalizeReplyEventTypes :: "runtime \<Rightarrow> jsvalue \<Rightarrow> string list" where
  "normalizeReplyEventTypes rt input =
     (let values = filter (\<lambda>v. v \<noteq> [])
            (case input of
               JArray arr \<Rightarrow> map (\<lambda>v. toUpperCase rt (trimString v)) arr
             | _ \<Rightarrow> map (\<lambda>v. toUpperCase rt (trim v)) DEFAULT_REPLY_EVENT_TYPES)
      in if values \<noteq> [] then uniqueInOrder values else DEFAULT_REPLY_EVENT_TYPES)"

definition getInboundWebhookPath :: "SmartleadPluginConfig \<Rightarrow> environment \<Rightarrow> string" where
  "getInboundWebhookPath cfg env =
     normalizePath
       (orElse (trimString (inboundWebhookPath cfg))
          (orElse (trimString (orUndefined (SMARTLEAD_WEBHOOK_PATH env)))
             DEFAULT_INBOUND_WEBHOOK_PATH))"

definition getWebhookSecret :: "SmartleadPluginConfig \<Rightarrow> environment \<Rightarrow> string" where
  "getWebhookSecret cfg env =
     orElse (trimString (webhookSecret cfg))
            (trimString (orUndefined (SMARTLEAD_WEBHOOK_SECRET env)))"

definition getOpenClawHookUrl :: "SmartleadPluginConfig \<Rightarrow> environment \<Rightarrow> string" where
  "getOpenClawHookUrl cfg env =
     orElse (trimString (openclawAgentHookUrl cfg))
            (trimString (orUndefined (OPENCLAW_SMARTLEAD_AGENT_HOOK_URL env)))"

definition getOpenClawHookToken :: "SmartleadPluginConfig \<Rightarrow> environment \<Rightarrow> string" where
  "getOpenClawHookToken cfg env =
     orElse (trimString (openclawHookToken cfg))
            (trimString (orUndefined (OPENCLAW_HOOKS_TOKEN env)))"

text \<open>
  \<^verbatim>\<open>getDedupeTtlSeconds\<close>, a whole number of seconds. \<^verbatim>\<open>coerceNumber\<close> returns finite
  numbers only, so the last case of the inner \<open>case\<close> is the default alone.
\<close>

definition getDedupeTtlSeconds :: "runtime \<Rightarrow> SmartleadPluginConfig \<Rightarrow> environment \<Rightarrow> int" where
  "getDedupeTtlSeconds rt cfg env =
     (let n = (case nullish (coerceNumber rt (dedupeTtlSeconds cfg))
                        (coerceNumber rt (orUndefined (SMARTLEAD_DEDUPE_TTL_SECONDS env))) of
                 Some (Finite q) \<Rightarrow> q
               | _ \<Rightarrow> DEFAULT_DEDUPE_TTL_SECONDS)
      in max 1 (min 86400 \<lfloor>n\<rfloor>))"

subsection \<open>The request\<close>

text \<open>
  An \<^verbatim>\<open>IncomingMessage\<close>: its method and URL (either may be missing), its headers under
  their lower-case names, and the chunks of bytes that iterating over it delivers. The
  stream of the model ends after its last chunk; a stream that fails before its end is
  not part of the model.
\<close>

datatype header_value = Single string | Multiple "string list"

record request =
  reqMethod :: "string option"
  reqUrl :: "string option"
  reqHeaders :: "(string \<times> header_value) list"
  reqChunks :: "string list"

datatype body_error = PayloadTooLarge int | JsonSyntaxError

fun readChunks :: "string list \<Rightarrow> int \<Rightarrow> string list \<Rightarrow> body_error + string list" where
  "readChunks chunks sz [] = Inr chunks"
| "readChunks chunks sz (buf # rest) =
     (let sz' = sz + int (length buf) in
      if sz' > MAX_WEBHOOK_BODY_BYTES then Inl (PayloadTooLarge sz')
      else readChunks (chunks @ [buf]) sz' rest)"

definition readRequestBody :: "runtime \<Rightarrow> request \<Rightarrow> body_error + string" where
  "readRequestBody rt req =
     (case readChunks [] 0 (reqChunks req) of
        Inl e \<Rightarrow> Inl e
      | Inr chunks \<Rightarrow> Inr (utf8ToString rt (concat chunks)))"

definition readJsonBody :: "runtime \<Rightarrow> request \<Rightarrow> body_error + JsonObject" where
  "readJsonBody rt req =
     (case readRequestBody rt req of
        Inl e \<Rightarrow> Inl e
      | Inr raw \<Rightarrow>
          if trim raw = [] then Inr []
          else (case JSON_parse rt raw of
                  None \<Rightarrow> Inl JsonSyntaxError
                | Some parsed \<Rightarrow> Inr (asRecord parsed)))"

text \<open>\<^verbatim>\<open>getHeader\<close>; every name the code passes is already in lower case.\<close>

definition getHeader :: "request \<Rightarrow> string \<Rightarrow> string" where
  "getHeader req name =
     (case map_of (reqHeaders req) name of
        Some (Multiple vs) \<Rightarrow> (case vs of [] \<Rightarrow> [] | v # _ \<Rightarrow> v)
      | Some (Single v) \<Rightarrow> v
      | None \<Rightarrow> [])"

text \<open>
  The test of \<^verbatim>\<open>/^Bearer\s+/i\<close>: the six letters in either case, then at least one
  white space character. Replacing the match by the empty string drops the six letters
  and all the white space that follows them.
\<close>

definition bearerTest :: "string \<Rightarrow> bool" where
  "bearerTest auth \<longleftrightarrow>
     (case auth of
        b # e # a # r # e' # r' # w # _ \<Rightarrow>
          b \<in> set ''Bb'' \<and> e \<in> set ''Ee'' \<and> a \<in> set ''Aa'' \<and> r \<in> set ''Rr'' \<and>
          e' \<in> set ''Ee'' \<and> r' \<in> set ''Rr'' \<and> isWhiteSpace w
      | _ \<Rightarrow> False)"

definition bearerReplace :: "string \<Rightarrow> string" where
  "bearerReplace auth = dropWhile isWhiteSpace (drop 6 auth)"

text \<open>\<^verbatim>\<open>url.searchParams.get(name)\<close>: the first value under the name, or \<^verbatim>\<open>null\<close>.\<close>

definition searchParamsGet :: "(string \<times> string) list \<Rightarrow> string \<Rightarrow> jsvalue" where
  "searchParamsGet params name = orNull (map_of params name)"

text \<open>\<^verbatim>\<open>extractRequestToken\<close>; \<open>None\<close> when \<^verbatim>\<open>new URL\<close> throws.\<close>

definition extractRequestToken :: "runtime \<Rightarrow> request \<Rightarrow> string option" where
  "extractRequestToken rt req =
     (let host = orElse (getHeader req ''host'') ''localhost'' in
      case urlSearchParams rt (case reqUrl req of None \<Rightarrow> ''/'' | Some u \<Rightarrow> u)
                              (''http://'' @ host) of
        None \<Rightarrow> None
      | Some params \<Rightarrow>
          (let auth = getHeader req ''authorization'' in
           if bearerTest auth then Some (trim (bearerReplace auth))
           else Some
             (orElse (trimString (searchParamsGet params ''token''))
               (orElse (trimString (searchParamsGet params ''secret''))
                 (orElse (trimString (JString (getHeader req ''x-smartlead-secret'')))
                         (trimString (JString (getHeader req ''x-webhook-secret''))))))))"

subsection \<open>The deduplication cache\<close>

text \<open>
  \<^verbatim>\<open>seenWebhookEvents\<close>, a \<^verbatim>\<open>Map\<close> from event key to the time the key was seen, in
  milliseconds, in insertion order.
\<close>

type_synonym cache = "(string \<times> int) list"

definition pruneSeenWebhookEvents :: "int \<Rightarrow> int \<Rightarrow> cache \<Rightarrow> cache" where
  "pruneSeenWebhookEvents ttlSeconds now seen =
     (let cutoff = now - ttlSeconds * 1000 in
      filter (\<lambda>(key, seenAt). \<not> seenAt < cutoff) seen)"

definition cacheHas :: "cache \<Rightarrow> string \<Rightarrow> bool" where
  "cacheHas seen key \<longleftrightarrow> map_of seen key \<noteq> None"

definition cacheSet :: "string \<Rightarrow> int \<Rightarrow> cache \<Rightarrow> cache" where
  "cacheSet key seenAt seen = AList.update key seenAt seen"

subsection \<open>Effects\<close>

text \<open>
  What the handler does besides computing, in the order in which it does it: a response
  written with \<^verbatim>\<open>sendJson\<close> (status and body), a line given to the logger, a key stored in
  the cache, and the request that \<^verbatim>\<open>fetch\<close> sends to the hook (URL and bearer token; the
  body of that request, built by \<^verbatim>\<open>buildSmartleadReplyPrompt\<close> and
  \<^verbatim>\<open>buildHookSessionKey\<close>, is not part of the model).
\<close>

datatype forward_error =
    MissingHookUrl
  | MissingHookToken
  | FetchRejected
  | ResponseTextRejected
  | HookHttpError nat

datatype response_body =
    Health string
  | MethodNotAllowed
  | InvalidJson body_error
  | InvalidWebhookSecret
  | Ignored "string option" "string list"
  | Duplicate string
  | Forwarded string "number option" "number option" "string option" nat
  | HookForwardFailed forward_error

datatype effect =
    SendJson nat response_body
  | LoggerInfo
  | LoggerError
  | CacheSet string int
  | HookFetch string string

text \<open>
  What the surroundings answer during one run of the handler: the two readings of
  \<^verbatim>\<open>Date.now()\<close>, in \<^verbatim>\<open>pruneSeenWebhookEvents\<close> and when the key is stored, and the
  outcome of the \<^verbatim>\<open>fetch\<close> to the hook: a rejection (network failure, timeout), or a
  response with its status, whether its content type contains \<^verbatim>\<open>application/json\<close>, and
  whether reading its text rejects.
\<close>

datatype fetch_outcome = Rejects | Responds nat bool bool

record world =
  nowAtPrune :: int
  nowAtSet :: int
  fetchOutcome :: fetch_outcome

subsection \<open>The hook forwarder\<close>

text \<open>
  \<^verbatim>\<open>forwardToOpenClawAgentHook\<close>: the effects it has and the status it returns, or the
  error it throws. It throws before it sends anything when the URL or the token of the
  hook is missing; after sending, when \<^verbatim>\<open>fetch\<close> rejects (the timeout of the request is one such
  rejection), when the text of a response that is not JSON cannot be read, and when the
  status of the response is not one of 200 to 299.
\<close>

definition forwardToOpenClawAgentHook ::
  "SmartleadPluginConfig \<Rightarrow> environment \<Rightarrow> fetch_outcome \<Rightarrow> effect list \<times> (forward_error + nat)"
where
  "forwardToOpenClawAgentHook cfg env outcome =
     (let url = getOpenClawHookUrl cfg env;
          token = getOpenClawHookToken cfg env
      in if url = [] then ([], Inl MissingHookUrl)
         else if token = [] then ([], Inl MissingHookToken)
         else (case outcome of
                 Rejects \<Rightarrow> ([HookFetch url token], Inl FetchRejected)
               | Responds status json textRejects \<Rightarrow>
                   if \<not> json \<and> textRejects then ([HookFetch url token], Inl ResponseTextRejected)
                   else if \<not> (200 \<le> status \<and> status \<le> 299)
                     then ([HookFetch url token], Inl (HookHttpError status))
                   else ([HookFetch url token], Inr status)))"

subsection \<open>The route handler\<close>

text \<open>The local \<^verbatim>\<open>providedSecret\<close> of the handler.\<close>

definition providedSecret :: "string \<Rightarrow> ReplyWebhookContext \<Rightarrow> string" where
  "providedSecret providedToken ctx =
     firstNonEmptyString [JString providedToken, orUndefined (secretKey ctx)]"

text \<open>The local \<^verbatim>\<open>isReplyEvent\<close> of the handler.\<close>

definition isReplyEvent :: "string list \<Rightarrow> ReplyWebhookContext \<Rightarrow> JsonObject \<Rightarrow> bool" where
  "isReplyEvent types ctx p \<longleftrightarrow>
     (eventType ctx \<noteq> [] \<and> eventType ctx \<in> set types) \<or>
     (eventType ctx = [] \<and>
        (present (previewText ctx) \<or> leadCorrespondence ctx \<noteq> None \<or>
         truthy (getProp p ''time_replied'')))"

text \<open>
  How a run of the handler ends: the effects it had, the cache it leaves, and whether it
  returned or threw (the promise of the handler rejects).
\<close>

record handler_result =
  trace :: "effect list"
  seenAfter :: cache
  threw :: bool

definition returned :: "effect list \<Rightarrow> cache \<Rightarrow> handler_result" where
  "returned effects seen = \<lparr> trace = effects, seenAfter = seen, threw = False \<rparr>"

text \<open>
  How the handler ends when it ends before it looks at the cache: the effects it had,
  and whether it threw.
\<close>

datatype early_end = Responded "effect list" | Thrown

text \<open>
  The handler from the extraction of the context to the event type filter, for the
  payload that \<^verbatim>\<open>readJsonBody\<close> returned: either the run ends here, or it goes on with the
  extracted context and the effects so far.
\<close>

definition handlerPayload ::
  "runtime \<Rightarrow> SmartleadPluginConfig \<Rightarrow> environment \<Rightarrow> request \<Rightarrow> JsonObject \<Rightarrow>
     early_end + (ReplyWebhookContext \<times> effect list)"
where
  "handlerPayload rt cfg env req p =
     (let types = normalizeReplyEventTypes rt (replyEventTypes cfg);
          logRawPayload = (logWebhookPayload cfg = JBoolean True);
          ctx = extractReplyWebhookContext rt p;
          expectedSecret = getWebhookSecret cfg env
      in case extractRequestToken rt req of
           None \<Rightarrow> Inl Thrown
         | Some providedToken \<Rightarrow>
            if expectedSecret \<noteq> [] \<and> providedSecret providedToken ctx \<noteq> expectedSecret
            then Inl (Responded [SendJson 401 InvalidWebhookSecret])
            else
              (let logged = (if logRawPayload then [LoggerInfo] else [])
               in if \<not> isReplyEvent types ctx p
                  then Inl (Responded
                    (logged @
                     [SendJson 202
                        (Ignored (if eventType ctx \<noteq> [] then Some (eventType ctx) else None)
                           types)]))
                  else Inr (ctx, logged)))"

text \<open>The method the handler compares: \<^verbatim>\<open>(req.method ?? "").toUpperCase()\<close>.\<close>

definition requestMethod :: "runtime \<Rightarrow> request \<Rightarrow> string" where
  "requestMethod rt req = toUpperCase rt (case reqMethod req of None \<Rightarrow> [] | Some m \<Rightarrow> m)"

text \<open>The handler up to the event type filter.\<close>

definition handlerFront ::
  "runtime \<Rightarrow> SmartleadPluginConfig \<Rightarrow> environment \<Rightarrow> request \<Rightarrow>
     early_end + (ReplyWebhookContext \<times> effect list)"
where
  "handlerFront rt cfg env req =
     (let path = getInboundWebhookPath cfg env in
      if requestMethod rt req = ''GET'' then Inl (Responded [SendJson 200 (Health path)])
      else if requestMethod rt req \<noteq> ''POST''
        then Inl (Responded [SendJson 405 MethodNotAllowed])
      else (case readJsonBody rt req of
              Inl err \<Rightarrow> Inl (Responded [SendJson 400 (InvalidJson err)])
            | Inr p \<Rightarrow> handlerPayload rt cfg env req p))"

text \<open>
  The handler from deduplication on. It prunes the cache, looks the key up and stores it
  without waiting in between, and does not touch the cache after it has called the
  forwarder: a request that arrives while a run waits for the hook finds the cache that
  the run leaves.
\<close>

definition handlerBack ::
  "runtime \<Rightarrow> SmartleadPluginConfig \<Rightarrow> environment \<Rightarrow> world \<Rightarrow> cache \<Rightarrow>
     ReplyWebhookContext \<Rightarrow> effect list \<Rightarrow> handler_result"
where
  "handlerBack rt cfg env w seen ctx logged =
     (let dedupeTtlSeconds = getDedupeTtlSeconds rt cfg env;
          seen1 = pruneSeenWebhookEvents dedupeTtlSeconds (nowAtPrune w) seen;
          dedupeKey = makeWebhookEventKey rt ctx
      in if cacheHas seen1 dedupeKey
         then returned (logged @ [SendJson 200 (Duplicate dedupeKey)]) seen1
         else
           (let seen2 = cacheSet dedupeKey (nowAtSet w) seen1 in
            case forwardToOpenClawAgentHook cfg env (fetchOutcome w) of
              (fx, Inr status) \<Rightarrow>
                returned
                  (logged @ [CacheSet dedupeKey (nowAtSet w)] @ fx @
                   [SendJson 202
                      (Forwarded (orElse (eventType ctx) ''EMAIL_REPLY'') (campaignId ctx)
                         (leadId ctx) (leadEmail ctx) status)])
                  seen2
            | (fx, Inl err) \<Rightarrow>
                returned
                  (logged @ [CacheSet dedupeKey (nowAtSet w)] @ fx @
                   [LoggerError, SendJson 500 (HookForwardFailed err)])
                  seen2))"

text \<open>The handler that \<^verbatim>\<open>registerSmartleadWebhookRoute\<close> registers.\<close>

definition handler ::
  "runtime \<Rightarrow> SmartleadPluginConfig \<Rightarrow> environment \<Rightarrow> world \<Rightarrow> request \<Rightarrow> cache \<Rightarrow>
     handler_result"
where
  "handler rt cfg env w req seen =
     (case handlerFront rt cfg env req of
        Inl (Responded effects) \<Rightarrow> returned effects seen
      | Inl Thrown \<Rightarrow> \<lparr> trace = [], seenAfter = seen, threw = True \<rparr>
      | Inr (ctx, logged) \<Rightarrow> handlerBack rt cfg env w seen ctx logged)"

subsection \<open>The precedence of candidate values, as a search\<close>

text \<open>
  A candidate value counts when it is a string with a character that is not white space;
  \<open>firstNonBlank\<close> is the trimmed first candidate that counts, and the empty string when
  none does.
\<close>

definition nonBlank :: "jsvalue \<Rightarrow> bool" where
  "nonBlank v = (case v of JString s \<Rightarrow> \<not> list_all isWhiteSpace s | _ \<Rightarrow> False)"

definition firstNonBlank :: "jsvalue list \<Rightarrow> string" where
  "firstNonBlank vs = (case List.find nonBlank vs of None \<Rightarrow> [] | Some v \<Rightarrow> trimString v)"

text \<open>
  The optional string fields of a context, and for each of them the values of its
  candidate properties in the payload, in the order in which the extractor tries them.
\<close>

definition stringFields :: "ReplyWebhookContext \<Rightarrow> string option list" where
  "stringFields c =
     [leadEmail c, responderEmail c, subject c, previewText c, eventTimestamp c, statsId c,
      messageId c, appUrl c, description c, secretKey c]"

definition stringCandidates :: "JsonObject \<Rightarrow> jsvalue list list" where
  "stringCandidates p =
     (let lc = asRecord (getProp p ''leadCorrespondence'') in
      [[getProp lc ''targetLeadEmail'', getProp p ''sl_lead_email'', getProp p ''email'',
        getProp p ''lead_email''],
       [getProp lc ''replyReceivedFrom'', getProp p ''from_email'', getProp p ''reply_from'',
        getProp p ''to_email''],
       [getProp p ''subject''],
       [getProp p ''preview_text'', getProp p ''preview'', getProp p ''snippet''],
       [getProp p ''event_timestamp'', getProp p ''time_replied'', getProp p ''timestamp''],
       [getProp p ''stats_id''],
       [getProp p ''message_id''],
       [getProp p ''app_url'', getProp p ''ui_master_inbox_link''],
       [getProp p ''description''],
       [getProp p ''secret_key'']])"

text \<open>The same for the numeric fields: the first candidate that coerces to a number.\<close>

definition numberFields :: "ReplyWebhookContext \<Rightarrow> number option list" where
  "numberFields c = [campaignId c, leadId c, leadMapId c]"

definition numberCandidates :: "JsonObject \<Rightarrow> jsvalue list list" where
  "numberCandidates p =
     [[getProp p ''campaign_id''],
      [getProp p ''sl_email_lead_id'', getProp p ''lead_id''],
      [getProp p ''sl_email_lead_map_id'', getProp p ''lead_map_id'']]"

definition firstNumber :: "runtime \<Rightarrow> jsvalue list \<Rightarrow> number option" where
  "firstNumber rt vs =
     (case List.find (\<lambda>v. coerceNumber rt v \<noteq> None) vs of
        None \<Rightarrow> None
      | Some v \<Rightarrow> coerceNumber rt v)"

text \<open>
  The values that can give the secret of a request, in the order in which the handler
  takes them, \<open>params\<close> being the query parameters of the request: after a bearer
  authorization header only the payload's \<^verbatim>\<open>secret_key\<close> is left; otherwise the query
  parameters \<^verbatim>\<open>token\<close> and \<^verbatim>\<open>secret\<close>, the headers \<^verbatim>\<open>x-smartlead-secret\<close> and
  \<^verbatim>\<open>x-webhook-secret\<close>, and the payload's \<^verbatim>\<open>secret_key\<close>.
\<close>

definition secretCandidates ::
  "request \<Rightarrow> (string \<times> string) list \<Rightarrow> ReplyWebhookContext \<Rightarrow> jsvalue list"
where
  "secretCandidates req params ctx =
     (if bearerTest (getHeader req ''authorization'')
      then [JString (bearerReplace (getHeader req ''authorization'')),
            orUndefined (secretKey ctx)]
      else [searchParamsGet params ''token'', searchParamsGet params ''secret'',
            JString (getHeader req ''x-smartlead-secret''),
            JString (getHeader req ''x-webhook-secret''),
            orUndefined (secretKey ctx)])"

text \<open>
  The heuristic of the handler for a payload without event type: preview text, a
  correspondence object that is not empty, or a true \<^verbatim>\<open>time_replied\<close>.
\<close>

definition replyLike :: "JsonObject \<Rightarrow> bool" where
  "replyLike p \<longleftrightarrow>
     firstNonBlank [getProp p ''preview_text'', getProp p ''preview'', getProp p ''snippet'']
       \<noteq> [] \<or>
     asRecord (getProp p ''leadCorrespondence'') \<noteq> [] \<or>
     truthy (getProp p ''time_replied'')"

text \<open>Whether a parsed JSON value is an object with properties of its own to read.\<close>

definition isObject :: "jsvalue \<Rightarrow> bool" where
  "isObject v = (case v of JObject kvs \<Rightarrow> True | _ \<Rightarrow> False)"

text \<open>The responses in a trace, and the requests sent to the hook.\<close>

definition responses :: "effect list \<Rightarrow> (nat \<times> response_body) list" where
  "responses effects =
     concat (map (\<lambda>e. case e of SendJson status b \<Rightarrow> [(status, b)] | _ \<Rightarrow> []) effects)"

definition hookFetches :: "effect list \<Rightarrow> effect list" where
  "hookFetches effects =
     filter (\<lambda>e. case e of HookFetch url token \<Rightarrow> True | _ \<Rightarrow> False) effects"

subsection \<open>A sample runtime and sample requests\<close>

text \<open>
  A runtime to run the model on: it answers as JavaScript does on the inputs of the
  samples below (ASCII letters, the listed numerals, the listed JSON texts and URLs).
  The digest is a stand-in that tags its input, so that different inputs have different
  digests.
\<close>

definition sampleUpper :: "string \<Rightarrow> string" where
  "sampleUpper s =
     map (\<lambda>c. case map_of (zip ''abcdefghijklmnopqrstuvwxyz'' ''ABCDEFGHIJKLMNOPQRSTUVWXYZ'') c of
                 None \<Rightarrow> c | Some u \<Rightarrow> u) s"

definition sampleNumber :: "string \<Rightarrow> number" where
  "sampleNumber s =
     (case map_of [(''12'', Finite 12), (''900'', Finite 900), (''Infinity'', PosInfinity)] s of
        None \<Rightarrow> NaN | Some n \<Rightarrow> n)"

definition sampleNumberToString :: "number \<Rightarrow> string" where
  "sampleNumberToString n =
     (case map_of [(Finite 12, ''12''), (Finite 900, ''900''), (PosInfinity, ''Infinity'')] n of
        None \<Rightarrow> ''NaN'' | Some s \<Rightarrow> s)"

definition sampleDigest :: "string \<Rightarrow> string" where
  "sampleDigest s = ''sha256:'' @ s"

text \<open>The JSON text of an object whose properties are all strings.\<close>

definition jsonText :: "(string \<times> string) list \<Rightarrow> string" where
  "jsonText kvs =
     ''{'' @ joinWith '',''
       (map (\<lambda>(k, v). [CHR 0x22] @ k @ [CHR 0x22] @ '':'' @ [CHR 0x22] @ v @ [CHR 0x22]) kvs)
     @ ''}''"

definition replyPayload :: "(string \<times> string) list" where
  "replyPayload = [(''event_type'', ''EMAIL_REPLY''), (''stats_id'', ''s-1'')]"

definition changedPayload :: "(string \<times> string) list" where
  "changedPayload =
     [(''event_type'', ''EMAIL_REPLY''), (''stats_id'', ''s-1''), (''subject'', ''Re: changed'')]"

definition statsOnlyPayload :: "(string \<times> string) list" where
  "statsOnlyPayload = [(''stats_id'', ''s-1'')]"

definition messagePayload :: "(string \<times> string) list" where
  "messagePayload = [(''event_type'', ''EMAIL_REPLY''), (''message_id'', ''m-1'')]"

definition timeRepliedPayload :: "(string \<times> string) list" where
  "timeRepliedPayload = [(''time_replied'', ''2025-01-15T10:30:00Z'')]"

definition asObject :: "(string \<times> string) list \<Rightarrow> JsonObject" where
  "asObject kvs = map (\<lambda>(k, v). (k, JString v)) kvs"

definition sampleParse :: "string \<Rightarrow> jsvalue option" where
  "sampleParse raw =
     (case List.find (\<lambda>kvs. jsonText kvs = raw)
             [replyPayload, changedPayload, statsOnlyPayload, messagePayload,
              timeRepliedPayload, []] of
        Some kvs \<Rightarrow> Some (JObject (asObject kvs))
      | None \<Rightarrow> if raw = ''[]'' then Some (JArray []) else None)"

definition sampleSearchParams :: "string \<Rightarrow> string \<Rightarrow> (string \<times> string) list option" where
  "sampleSearchParams u base =
     map_of [(''/smartlead/webhook'', []),
             (''/smartlead/webhook?token=other'', [(''token'', ''other'')])] u"

definition rt0 :: runtime where
  "rt0 = \<lparr> toUpperCase = sampleUpper, toNumber = sampleNumber,
           numberToString = sampleNumberToString, sha256hex = sampleDigest,
           JSON_parse = sampleParse, utf8ToString = (\<lambda>bytes. bytes),
           urlSearchParams = sampleSearchParams \<rparr>"

definition messageContext :: ReplyWebhookContext where
  "messageContext = extractReplyWebhookContext rt0 (asObject messagePayload)"

definition numericPayload :: JsonObject where
  "numericPayload =
     [(''campaign_id'', JString ''12''), (''sl_email_lead_id'', JString ''Infinity''),
      (''lead_id'', JNumber (Finite 900)), (''lead_map_id'', JNumber PosInfinity),
      (''leadCorrespondence'', JObject [(''targetLeadEmail'', JString '' a@x.com '')]),
      (''sl_lead_email'', JString ''b@x.com''), (''subject'', JNumber (Finite 12))]"

text \<open>
  A payload whose numbers come as numerals, first candidates that are not finite before
  second candidates that are.
\<close>

definition coercedPayload :: JsonObject where
  "coercedPayload =
     [(''campaign_id'', JString ''12''), (''sl_email_lead_id'', JString ''Infinity''),
      (''lead_id'', JString ''900''), (''sl_email_lead_map_id'', JNumber PosInfinity),
      (''lead_map_id'', JString ''12''), (''subject'', JString ''Hello'')]"

definition replyContext :: ReplyWebhookContext where
  "replyContext = extractReplyWebhookContext rt0 (asObject replyPayload)"

definition timeRepliedContext :: ReplyWebhookContext where
  "timeRepliedContext = extractReplyWebhookContext rt0 (asObject timeRepliedPayload)"

definition cfg0 :: SmartleadPluginConfig where
  "cfg0 = \<lparr> inboundWebhookPath = JUndefined, webhookSecret = JUndefined,
            replyEventTypes = JUndefined,
            openclawAgentHookUrl = JString ''http://127.0.0.1:18789/hooks/agent'',
            openclawHookToken = JString ''hook-token'',
            dedupeTtlSeconds = JUndefined, logWebhookPayload = JUndefined \<rparr>"

definition cfgSecret :: SmartleadPluginConfig where
  "cfgSecret = cfg0 \<lparr> webhookSecret := JString ''s3cret'' \<rparr>"

definition env0 :: environment where
  "env0 = \<lparr> SMARTLEAD_WEBHOOK_PATH = None, SMARTLEAD_WEBHOOK_SECRET = None,
            OPENCLAW_SMARTLEAD_AGENT_HOOK_URL = None, OPENCLAW_HOOKS_TOKEN = None,
            SMARTLEAD_DEDUPE_TTL_SECONDS = None \<rparr>"

definition post :: "string \<Rightarrow> (string \<times> header_value) list \<Rightarrow> string \<Rightarrow> request" where
  "post u hs raw =
     \<lparr> reqMethod = Some ''POST'', reqUrl = Some u, reqHeaders = hs, reqChunks = [raw] \<rparr>"

definition replyRequest :: request where
  "replyRequest = post ''/smartlead/webhook'' [] (jsonText replyPayload)"


definition statsOnlyRequest :: request where
  "statsOnlyRequest = post ''/smartlead/webhook'' [] (jsonText statsOnlyPayload)"

definition timeRepliedRequest :: request where
  "timeRepliedRequest = post ''/smartlead/webhook'' [] (jsonText timeRepliedPayload)"

text \<open>A request with one token in the query and another in the dedicated header.\<close>

definition twoTokensRequest :: request where
  "twoTokensRequest =
     post ''/smartlead/webhook?token=other'' [(''x-smartlead-secret'', Single ''s3cret'')]
       (jsonText replyPayload)"

definition blankBodyRequest :: request where
  "blankBodyRequest = post ''/smartlead/webhook'' [] ''  ''"

definition arrayBodyRequest :: request where
  "arrayBodyRequest = post ''/smartlead/webhook'' [] ''[]''"

text \<open>The first delivery at time 1000 ms, the hook answering 200 or not answering.\<close>

definition worldOk :: world where
  "worldOk = \<lparr> nowAtPrune = 1000, nowAtSet = 1000, fetchOutcome = Responds 200 True False \<rparr>"

definition worldDown :: world where
  "worldDown = \<lparr> nowAtPrune = 1000, nowAtSet = 1000, fetchOutcome = Rejects \<rparr>"

text \<open>A second delivery a minute later.\<close>

definition worldLater :: world where
  "worldLater = \<lparr> nowAtPrune = 61000, nowAtSet = 61000, fetchOutcome = Responds 200 True False \<rparr>"

text \<open>
  The first delivery of the reply, with the hook answering and with the hook down, and
  the context of the payload that differs from it in its subject only.
\<close>

definition firstRun :: handler_result where
  "firstRun = handler rt0 cfg0 env0 worldOk replyRequest []"

definition failedRun :: handler_result where
  "failedRun = handler rt0 cfg0 env0 worldDown replyRequest []"


section \<open>Properties\<close>

subsection \<open>Trimming and the helpers\<close>

lemma all_dropWhile: "(\<forall>x \<in> set (dropWhile P xs). P x) \<longleftrightarrow> (\<forall>x \<in> set xs. P x)"
  by (induction xs) auto

lemma trim_Nil_iff: "trim s = [] \<longleftrightarrow> (\<forall>c \<in> set s. isWhiteSpace c)"
  by (simp add: trim_def all_dropWhile)

text \<open>What is left after dropping white space at both ends starts with none.\<close>

lemma dropWhile_dropEnd:
  "dropWhile P (rev (dropWhile P (rev (dropWhile P xs)))) =
   rev (dropWhile P (rev (dropWhile P xs)))"
proof -
  let ?t = "dropWhile P xs"
  let ?u = "rev (dropWhile P (rev ?t))"
  show ?thesis
  proof (cases "?u = []")
    case True
    show ?thesis unfolding True by simp
  next
    case False
    have "?t = ?u @ rev (takeWhile P (rev ?t))"
      by (metis rev_append rev_rev_ident takeWhile_dropWhile_id)
    with False have "hd ?u = hd ?t" by (metis hd_append2)
    moreover have "?t \<noteq> []"
    proof
      assume empty: "?t = []"
      have "?u = []" unfolding empty by simp
      with False show False by blast
    qed
    then have "\<not> P (hd ?t)" by (rule hd_dropWhile)
    ultimately show ?thesis using False by (simp add: dropWhile_eq_self_iff)
  qed
qed

lemma trim_trim: "trim (trim s) = trim s"
  by (simp add: trim_def dropWhile_dropEnd)

lemma coerceNumber_finite: "coerceNumber rt v = Some n \<Longrightarrow> isFinite n"
  by (auto simp: coerceNumber_def Let_def split: jsvalue.splits if_splits)

lemma nonBlank_trimString: "nonBlank v \<longleftrightarrow> trimString v \<noteq> []"
  by (simp add: nonBlank_def trimString_def trim_Nil_iff list_all_iff split: jsvalue.splits)

text \<open>The loop of \<^verbatim>\<open>firstNonEmptyString\<close> is the search for the first candidate that counts.\<close>

lemma firstNonEmptyString_firstNonBlank: "firstNonEmptyString vs = firstNonBlank vs"
  by (induction vs) (simp_all add: firstNonBlank_def nonBlank_trimString Let_def)

lemma firstNumber_two:
  "firstNumber rt [a, b] = nullish (coerceNumber rt a) (coerceNumber rt b)"
  by (auto simp: nullish_def firstNumber_def split: option.splits)

lemma firstNumber_one: "firstNumber rt [a] = coerceNumber rt a"
  by (auto simp: firstNumber_def split: option.splits)

text \<open>What \<^verbatim>\<open>firstNonEmptyString\<close> returns is trimmed, and a list of candidates can be split.\<close>

lemma firstNonEmptyString_trimmed: "trim (firstNonEmptyString vs) = firstNonEmptyString vs"
  by (induction vs) (auto simp: trim_def trimString_def trim_trim[unfolded trim_def] Let_def split: jsvalue.splits)

lemma firstNonEmptyString_append:
  "firstNonEmptyString (xs @ ys) =
     (if firstNonEmptyString xs \<noteq> [] then firstNonEmptyString xs else firstNonEmptyString ys)"
  by (induction xs) (simp_all add: Let_def)

subsection \<open>The fields of the extracted context\<close>

text \<open>
  Claim C6, as the code has it. Every string field of the extracted context is the
  trimmed first candidate, in the order of the extractor, that is a string with a
  character other than white space; when there is no such candidate the field is the
  empty string, never \<^verbatim>\<open>undefined\<close>. Every numeric field is the first candidate that
  coerces to a finite number, and \<^verbatim>\<open>undefined\<close> when none does. The event type is the
  upper case of the first such string among \<^verbatim>\<open>event_type\<close>, \<^verbatim>\<open>eventType\<close> and \<^verbatim>\<open>type\<close>,
  and the correspondence object is \<^verbatim>\<open>undefined\<close> unless the payload holds a non-empty one.
\<close>

theorem extract_precedence:
  "stringFields (extractReplyWebhookContext rt p) =
     map (\<lambda>vs. Some (firstNonBlank vs)) (stringCandidates p) \<and>
   numberFields (extractReplyWebhookContext rt p) =
     map (firstNumber rt) (numberCandidates p) \<and>
   eventType (extractReplyWebhookContext rt p) =
     toUpperCase rt
       (firstNonBlank [getProp p ''event_type'', getProp p ''eventType'', getProp p ''type'']) \<and>
   leadCorrespondence (extractReplyWebhookContext rt p) =
     (if asRecord (getProp p ''leadCorrespondence'') = [] then None
      else Some (asRecord (getProp p ''leadCorrespondence'')))"
  by (simp add: stringFields_def stringCandidates_def numberFields_def numberCandidates_def
      extractReplyWebhookContext_def Let_def firstNonEmptyString_firstNonBlank
      firstNumber_two firstNumber_one del: firstNonEmptyString.simps)

text \<open>
  On a payload whose correspondence object and \<^verbatim>\<open>sl_lead_email\<close> both give a lead email,
  whose \<^verbatim>\<open>sl_email_lead_id\<close> is not finite and whose subject is not a string.
\<close>

theorem extract_precedence_witness:
  "stringFields (extractReplyWebhookContext rt0 numericPayload) =
     [Some ''a@x.com'', Some [], Some [], Some [], Some [], Some [], Some [], Some [],
      Some [], Some []] \<and>
   numberFields (extractReplyWebhookContext rt0 numericPayload) =
     [Some (Finite 12), Some (Finite 900), None]"
  using extract_precedence [of rt0 numericPayload]
  by code_simp

text \<open>
  Claim C6 as the specification states it fails: the lead email of the empty payload is
  absent, and the extracted field is the empty string.
\<close>

theorem extract_absent_is_empty_string:
  "leadEmail (extractReplyWebhookContext rt0 []) = Some []"
  by code_simp

subsection \<open>The extractor never throws\<close>

lemma nullish_finite:
  "nullish (coerceNumber rt a) (coerceNumber rt b) = Some n \<Longrightarrow> isFinite n"
  by (auto simp: nullish_def split: option.splits dest: coerceNumber_finite)

text \<open>Every property read of an object returns.\<close>

lemma readProperty_object: "readProperty (JObject p) key = Inr (getProp p key)"
  by (simp add: readProperty_def)

lemma readAll_objects:
  "readAll (map (\<lambda>(kvs, key). (JObject kvs, key)) reads) =
     Inr (map (\<lambda>(kvs, key). getProp kvs key) reads)"
  by (induction reads) (auto simp: bindE_def readProperty_object)

lemma stringOf_objects:
  "stringOf (map (\<lambda>(kvs, key). (JObject kvs, key)) reads) =
     Inr (firstNonEmptyString (map (\<lambda>(kvs, key). getProp kvs key) reads))"
  by (simp add: stringOf_def readAll_objects bindE_def)

lemma numberOf_one:
  "numberOf rt (JObject p) [a] = Inr (coerceNumber rt (getProp p a))"
  by (simp add: bindE_def readProperty_object split: option.splits)

lemma numberOf_two:
  "numberOf rt (JObject p) [a, b] =
     Inr (nullish (coerceNumber rt (getProp p a)) (coerceNumber rt (getProp p b)))"
  by (simp add: bindE_def readProperty_object nullish_def split: option.splits)

lemma checked_returns:
  "extractReplyWebhookContextChecked rt p = Inr (extractReplyWebhookContext rt p)"
  using stringOf_objects [of "[(p, ''event_type''), (p, ''eventType''), (p, ''type'')]"]
    stringOf_objects [of "[(asRecord (getProp p ''leadCorrespondence''), ''targetLeadEmail''),
       (p, ''sl_lead_email''), (p, ''email''), (p, ''lead_email'')]"]
    stringOf_objects [of "[(asRecord (getProp p ''leadCorrespondence''), ''replyReceivedFrom''),
       (p, ''from_email''), (p, ''reply_from''), (p, ''to_email'')]"]
    stringOf_objects [of "[(p, ''subject'')]"]
    stringOf_objects [of "[(p, ''preview_text''), (p, ''preview''), (p, ''snippet'')]"]
    stringOf_objects [of "[(p, ''event_timestamp''), (p, ''time_replied''), (p, ''timestamp'')]"]
    stringOf_objects [of "[(p, ''stats_id'')]"]
    stringOf_objects [of "[(p, ''message_id'')]"]
    stringOf_objects [of "[(p, ''app_url''), (p, ''ui_master_inbox_link'')]"]
    stringOf_objects [of "[(p, ''description'')]"]
    stringOf_objects [of "[(p, ''secret_key'')]"]
  by (simp add: extractReplyWebhookContextChecked_def extractReplyWebhookContext_def Let_def
      bindE_def readProperty_object numberOf_one numberOf_two
      del: firstNonEmptyString.simps numberOf.simps)

text \<open>
  Claim C8. Reading a property of \<^verbatim>\<open>undefined\<close> or \<^verbatim>\<open>null\<close> throws, and reading
  \<^verbatim>\<open>targetLeadEmail\<close> straight off the missing \<^verbatim>\<open>leadCorrespondence\<close> of the empty payload
  would; yet for every payload object the extractor, with every property read of its body
  evaluated as JavaScript evaluates it, returns a context and throws nothing, because it
  reads the nested properties from what \<^verbatim>\<open>asRecord\<close> returned. \<^verbatim>\<open>coerceNumber\<close> takes a
  string that is not blank to the number \<^verbatim>\<open>Number\<close> reads it as when that number is
  finite, keeps a finite number, and rejects everything else: a blank string, a string or
  a number that is not finite, and every value of another kind. The campaign id is the
  coerced \<^verbatim>\<open>campaign_id\<close>; the lead id is the coerced \<^verbatim>\<open>sl_email_lead_id\<close>, or the coerced
  \<^verbatim>\<open>lead_id\<close> when that is rejected; the lead map id likewise from
  \<^verbatim>\<open>sl_email_lead_map_id\<close> and \<^verbatim>\<open>lead_map_id\<close>; so each of them is absent or finite. The
  context of the empty payload has every optional field absent: no number, empty
  strings, no correspondence object.
\<close>

theorem extract_total:
  "extractReplyWebhookContextChecked rt p = Inr (extractReplyWebhookContext rt p) \<and>
   (\<forall>key. readProperty JUndefined key = Inl TypeError) \<and>
   (\<forall>key. readProperty JNull key = Inl TypeError) \<and>
   readProperty (getProp [] ''leadCorrespondence'') ''targetLeadEmail'' = Inl TypeError \<and>
   (\<forall>s. coerceNumber rt (JString s) =
        (if trim s \<noteq> [] \<and> isFinite (toNumber rt s) then Some (toNumber rt s) else None)) \<and>
   (\<forall>n. coerceNumber rt (JNumber n) = (if isFinite n then Some n else None)) \<and>
   coerceNumber rt JUndefined = None \<and> coerceNumber rt JNull = None \<and>
   (\<forall>b. coerceNumber rt (JBoolean b) = None) \<and> (\<forall>xs. coerceNumber rt (JArray xs) = None) \<and>
   (\<forall>kvs. coerceNumber rt (JObject kvs) = None) \<and>
   campaignId (extractReplyWebhookContext rt p) = coerceNumber rt (getProp p ''campaign_id'') \<and>
   leadId (extractReplyWebhookContext rt p) =
     (case coerceNumber rt (getProp p ''sl_email_lead_id'') of
        Some n \<Rightarrow> Some n
      | None \<Rightarrow> coerceNumber rt (getProp p ''lead_id'')) \<and>
   leadMapId (extractReplyWebhookContext rt p) =
     (case coerceNumber rt (getProp p ''sl_email_lead_map_id'') of
        Some n \<Rightarrow> Some n
      | None \<Rightarrow> coerceNumber rt (getProp p ''lead_map_id'')) \<and>
   (\<forall>n \<in> set (numberFields (extractReplyWebhookContext rt p)).
      n = None \<or> (\<exists>q. n = Some (Finite q))) \<and>
   eventType (extractReplyWebhookContext rt []) = toUpperCase rt [] \<and>
   numberFields (extractReplyWebhookContext rt []) = [None, None, None] \<and>
   stringFields (extractReplyWebhookContext rt []) = replicate 10 (Some []) \<and>
   leadCorrespondence (extractReplyWebhookContext rt []) = None \<and>
   payload (extractReplyWebhookContext rt p) = p"
proof (intro conjI)
  show "extractReplyWebhookContextChecked rt p = Inr (extractReplyWebhookContext rt p)"
    by (rule checked_returns)
  show "\<forall>key. readProperty JUndefined key = Inl TypeError"
    by (simp add: readProperty_def)
  show "\<forall>key. readProperty JNull key = Inl TypeError"
    by (simp add: readProperty_def)
  show "readProperty (getProp [] ''leadCorrespondence'') ''targetLeadEmail'' = Inl TypeError"
    by (simp add: readProperty_def getProp_def)
  show "\<forall>s. coerceNumber rt (JString s) =
        (if trim s \<noteq> [] \<and> isFinite (toNumber rt s) then Some (toNumber rt s) else None)"
    by (simp add: coerceNumber_def)
  show "\<forall>n. coerceNumber rt (JNumber n) = (if isFinite n then Some n else None)"
    by (simp add: coerceNumber_def)
  show "coerceNumber rt JUndefined = None" by (simp add: coerceNumber_def)
  show "coerceNumber rt JNull = None" by (simp add: coerceNumber_def)
  show "\<forall>b. coerceNumber rt (JBoolean b) = None" by (simp add: coerceNumber_def)
  show "\<forall>xs. coerceNumber rt (JArray xs) = None" by (simp add: coerceNumber_def)
  show "\<forall>kvs. coerceNumber rt (JObject kvs) = None" by (simp add: coerceNumber_def)
  show "campaignId (extractReplyWebhookContext rt p) = coerceNumber rt (getProp p ''campaign_id'')"
    by (simp add: extractReplyWebhookContext_def Let_def)
  show "leadId (extractReplyWebhookContext rt p) =
     (case coerceNumber rt (getProp p ''sl_email_lead_id'') of
        Some n \<Rightarrow> Some n
      | None \<Rightarrow> coerceNumber rt (getProp p ''lead_id''))"
    by (simp add: extractReplyWebhookContext_def Let_def nullish_def)
  show "leadMapId (extractReplyWebhookContext rt p) =
     (case coerceNumber rt (getProp p ''sl_email_lead_map_id'') of
        Some n \<Rightarrow> Some n
      | None \<Rightarrow> coerceNumber rt (getProp p ''lead_map_id''))"
    by (simp add: extractReplyWebhookContext_def Let_def nullish_def)
  show "\<forall>n \<in> set (numberFields (extractReplyWebhookContext rt p)).
          n = None \<or> (\<exists>q. n = Some (Finite q))"
  proof
    fix n
    assume "n \<in> set (numberFields (extractReplyWebhookContext rt p))"
    then consider "n = coerceNumber rt (getProp p ''campaign_id'')"
      | "n = nullish (coerceNumber rt (getProp p ''sl_email_lead_id''))
                     (coerceNumber rt (getProp p ''lead_id''))"
      | "n = nullish (coerceNumber rt (getProp p ''sl_email_lead_map_id''))
                     (coerceNumber rt (getProp p ''lead_map_id''))"
      by (auto simp: numberFields_def extractReplyWebhookContext_def Let_def)
    then have "\<And>m. n = Some m \<Longrightarrow> isFinite m"
      by cases (auto dest: coerceNumber_finite nullish_finite)
    then show "n = None \<or> (\<exists>q. n = Some (Finite q))"
      by (cases n) (auto simp: isFinite_def split: number.splits)
  qed
  show "eventType (extractReplyWebhookContext rt []) = toUpperCase rt []"
    by (simp add: extractReplyWebhookContext_def Let_def getProp_def trimString_def)
  show "numberFields (extractReplyWebhookContext rt []) = [None, None, None]"
    by (simp add: numberFields_def extractReplyWebhookContext_def Let_def getProp_def
        coerceNumber_def nullish_def)
  show "stringFields (extractReplyWebhookContext rt []) = replicate 10 (Some [])"
    by (simp add: stringFields_def extractReplyWebhookContext_def Let_def getProp_def
        asRecord_def trimString_def numeral_eq_Suc)
  show "leadCorrespondence (extractReplyWebhookContext rt []) = None"
    by (simp add: extractReplyWebhookContext_def Let_def getProp_def asRecord_def)
  show "payload (extractReplyWebhookContext rt p) = p"
    by (simp add: extractReplyWebhookContext_def Let_def)
qed

text \<open>
  On a payload with numerals for its numbers, an infinite first candidate before a
  finite second one for the lead id and for the lead map id.
\<close>

theorem extract_total_witness:
  "extractReplyWebhookContextChecked rt0 coercedPayload =
     Inr \<lparr> eventType = [], campaignId = Some (Finite 12), leadId = Some (Finite 900),
           leadMapId = Some (Finite 12), leadEmail = Some [], responderEmail = Some [],
           subject = Some ''Hello'', previewText = Some [], eventTimestamp = Some [],
           statsId = Some [], messageId = Some [], appUrl = Some [], description = Some [],
           secretKey = Some [], leadCorrespondence = None, payload = coercedPayload \<rparr> \<and>
   coerceNumber rt0 (getProp coercedPayload ''sl_email_lead_id'') = None \<and>
   coerceNumber rt0 (getProp coercedPayload ''lead_id'') = Some (Finite 900) \<and>
   coerceNumber rt0 (getProp coercedPayload ''sl_email_lead_map_id'') = None \<and>
   coerceNumber rt0 (getProp coercedPayload ''lead_map_id'') = Some (Finite 12) \<and>
   leadId (extractReplyWebhookContext rt0 coercedPayload) = Some (Finite 900) \<and>
   leadMapId (extractReplyWebhookContext rt0 coercedPayload) = Some (Finite 12)"
proof -
  have whole: "extractReplyWebhookContext rt0 coercedPayload =
      \<lparr> eventType = [], campaignId = Some (Finite 12), leadId = Some (Finite 900),
        leadMapId = Some (Finite 12), leadEmail = Some [], responderEmail = Some [],
        subject = Some ''Hello'', previewText = Some [], eventTimestamp = Some [],
        statsId = Some [], messageId = Some [], appUrl = Some [], description = Some [],
        secretKey = Some [], leadCorrespondence = None, payload = coercedPayload \<rparr>"
    by code_simp
  have a: "coerceNumber rt0 (getProp coercedPayload ''sl_email_lead_id'') = None"
    by code_simp
  have b: "coerceNumber rt0 (getProp coercedPayload ''lead_id'') = Some (Finite 900)"
    by code_simp
  have c: "coerceNumber rt0 (getProp coercedPayload ''sl_email_lead_map_id'') = None"
    by code_simp
  have d: "coerceNumber rt0 (getProp coercedPayload ''lead_map_id'') = Some (Finite 12)"
    by code_simp
  note total = extract_total [of rt0 coercedPayload]
  from total have 1: "extractReplyWebhookContextChecked rt0 coercedPayload =
      Inr (extractReplyWebhookContext rt0 coercedPayload)"
    by blast
  from total have 2: "leadId (extractReplyWebhookContext rt0 coercedPayload) =
     (case coerceNumber rt0 (getProp coercedPayload ''sl_email_lead_id'') of
        Some n \<Rightarrow> Some n
      | None \<Rightarrow> coerceNumber rt0 (getProp coercedPayload ''lead_id''))"
    by blast
  from total have 3: "leadMapId (extractReplyWebhookContext rt0 coercedPayload) =
     (case coerceNumber rt0 (getProp coercedPayload ''sl_email_lead_map_id'') of
        Some n \<Rightarrow> Some n
      | None \<Rightarrow> coerceNumber rt0 (getProp coercedPayload ''lead_map_id''))"
    by blast
  from 1 whole have 4: "extractReplyWebhookContextChecked rt0 coercedPayload =
     Inr \<lparr> eventType = [], campaignId = Some (Finite 12), leadId = Some (Finite 900),
           leadMapId = Some (Finite 12), leadEmail = Some [], responderEmail = Some [],
           subject = Some ''Hello'', previewText = Some [], eventTimestamp = Some [],
           statsId = Some [], messageId = Some [], appUrl = Some [], description = Some [],
           secretKey = Some [], leadCorrespondence = None, payload = coercedPayload \<rparr>"
    by simp
  from 2 a b have 5: "leadId (extractReplyWebhookContext rt0 coercedPayload) = Some (Finite 900)"
    by simp
  from 3 c d have 6: "leadMapId (extractReplyWebhookContext rt0 coercedPayload) = Some (Finite 12)"
    by simp
  from 4 a b c d 5 6 show ?thesis by blast
qed

subsection \<open>The event key\<close>

text \<open>
  The event key of \<^verbatim>\<open>index.ts\<close>. The event key is the digest of the stats identifier
  when the context has one that is not empty; otherwise it is the digest of the message
  identifier when the context has one that is not empty; otherwise it is the digest of
  event type, campaign id, lead id, lead email and event timestamp joined by \<^verbatim>\<open>|\<close>, an
  absent one of these being the empty string.
\<close>

theorem eventKey_precedence:
  "(\<forall>s. statsId ctx = Some s \<and> s \<noteq> [] \<longrightarrow> makeWebhookEventKey rt ctx = sha256hex rt s) \<and>
   (\<forall>m. \<not> present (statsId ctx) \<and> messageId ctx = Some m \<and> m \<noteq> [] \<longrightarrow>
      makeWebhookEventKey rt ctx = sha256hex rt m) \<and>
   (\<not> present (statsId ctx) \<and> \<not> present (messageId ctx) \<longrightarrow>
      makeWebhookEventKey rt ctx =
        sha256hex rt
          (eventType ctx @ ''|'' @ numberOrEmpty rt (campaignId ctx) @ ''|'' @
           numberOrEmpty rt (leadId ctx) @ ''|'' @ stringOrEmpty (leadEmail ctx) @ ''|'' @
           stringOrEmpty (eventTimestamp ctx)))"
  by (simp add: makeWebhookEventKey_def eventKeyBase_def eventKeyTuple_def present_def
      stringOrEmpty_def)

text \<open>
  The three cases, on the contexts of a payload with a stats identifier, of one with a
  message identifier only, and of one with neither.
\<close>

theorem eventKey_precedence_witness:
  "makeWebhookEventKey rt0 replyContext = sha256hex rt0 ''s-1'' \<and>
   makeWebhookEventKey rt0 messageContext = sha256hex rt0 ''m-1'' \<and>
   makeWebhookEventKey rt0 timeRepliedContext = sha256hex rt0 ''||||2025-01-15T10:30:00Z''"
proof -
  have a: "statsId replyContext = Some ''s-1'' \<and> ''s-1'' \<noteq> []"
    by code_simp
  have b: "\<not> present (statsId messageContext) \<and> messageId messageContext = Some ''m-1'' \<and>
      ''m-1'' \<noteq> []"
    by code_simp
  have c: "\<not> present (statsId timeRepliedContext) \<and> \<not> present (messageId timeRepliedContext)"
    by code_simp
  have d: "eventType timeRepliedContext @ ''|'' @
           numberOrEmpty rt0 (campaignId timeRepliedContext) @ ''|'' @
           numberOrEmpty rt0 (leadId timeRepliedContext) @ ''|'' @
           stringOrEmpty (leadEmail timeRepliedContext) @ ''|'' @
           stringOrEmpty (eventTimestamp timeRepliedContext)
           = ''||||2025-01-15T10:30:00Z''"
    by code_simp
  from eventKey_precedence [of replyContext rt0] a
  have 1: "makeWebhookEventKey rt0 replyContext = sha256hex rt0 ''s-1''"
    by blast
  from eventKey_precedence [of messageContext rt0] b
  have 2: "makeWebhookEventKey rt0 messageContext = sha256hex rt0 ''m-1''"
    by blast
  from eventKey_precedence [of timeRepliedContext rt0] c d
  have 3: "makeWebhookEventKey rt0 timeRepliedContext =
      sha256hex rt0 ''||||2025-01-15T10:30:00Z''"
    by metis
  from 1 2 3 show ?thesis by blast
qed

text \<open>
  Claim C4 fails on \<^verbatim>\<open>makeWebhookEventKey\<close> of \<^verbatim>\<open>index.ts\<close>. The claim has the key of
  a context without stats identifier be the digest of the joined fields; the context of
  a payload with a message identifier and no stats identifier has the digest of the
  message identifier as its key, and the joined fields are another string.
\<close>

theorem eventKey_message_id_counterexample:
  "\<not> present (statsId messageContext) \<and>
   makeWebhookEventKey rt0 messageContext = sha256hex rt0 ''m-1'' \<and>
   eventKeyTuple rt0 messageContext = ''EMAIL_REPLY||||'' \<and>
   makeWebhookEventKey rt0 messageContext \<noteq> sha256hex rt0 (eventKeyTuple rt0 messageContext)"
  by code_simp

subsection \<open>The secret of a request\<close>

lemma providedSecret_of_first:
  "providedSecret (firstNonEmptyString vs) ctx = firstNonEmptyString (vs @ [orUndefined (secretKey ctx)])"
  by (simp add: providedSecret_def firstNonEmptyString_append Let_def trimString_def
      firstNonEmptyString_trimmed)

lemma providedSecret_bearer:
  "providedSecret (trim s) ctx = firstNonEmptyString [JString s, orUndefined (secretKey ctx)]"
  by (simp add: providedSecret_def Let_def trimString_def trim_trim)

lemma extractRequestToken_url:
  assumes url: "urlSearchParams rt (case reqUrl req of None \<Rightarrow> ''/'' | Some u \<Rightarrow> u)
                  (''http://'' @ orElse (getHeader req ''host'') ''localhost'') = Some params"
  shows "\<exists>tok. extractRequestToken rt req = Some tok \<and>
           providedSecret tok ctx = firstNonBlank (secretCandidates req params ctx)"
proof (cases "bearerTest (getHeader req ''authorization'')")
  case True
  then have "extractRequestToken rt req =
      Some (trim (bearerReplace (getHeader req ''authorization'')))"
    using url by (simp add: extractRequestToken_def Let_def)
  with True show ?thesis
    by (simp add: secretCandidates_def providedSecret_bearer
        flip: firstNonEmptyString_firstNonBlank del: firstNonEmptyString.simps)
next
  case False
  then have "extractRequestToken rt req =
      Some (firstNonEmptyString
        [searchParamsGet params ''token'', searchParamsGet params ''secret'',
         JString (getHeader req ''x-smartlead-secret''),
         JString (getHeader req ''x-webhook-secret'')])"
    using url
    by (simp add: extractRequestToken_def orElse_def Let_def)
  with False show ?thesis
    by (simp add: secretCandidates_def providedSecret_of_first
        flip: firstNonEmptyString_firstNonBlank del: firstNonEmptyString.simps)
qed

lemma handlerPayload_401_iff:
  assumes tok: "extractRequestToken rt req = Some tok"
  shows "handlerPayload rt cfg env req p = Inl (Responded [SendJson 401 InvalidWebhookSecret]) \<longleftrightarrow>
         getWebhookSecret cfg env \<noteq> [] \<and>
         providedSecret tok (extractReplyWebhookContext rt p) \<noteq> getWebhookSecret cfg env"
  using tok by (auto simp: handlerPayload_def Let_def)

text \<open>
  The order of \<^verbatim>\<open>index.ts\<close>. When the URL of the request can be parsed, the value the
  handler compares with the configured secret is the first of these that is a string
  with a character other than white space, trimmed: the token after \<^verbatim>\<open>Bearer\<close> in the
  authorization header and then the payload's \<^verbatim>\<open>secret_key\<close>, when the header is a bearer
  header; otherwise the query parameter \<^verbatim>\<open>token\<close>, the query parameter \<^verbatim>\<open>secret\<close>, the
  header \<^verbatim>\<open>x-smartlead-secret\<close>, the header \<^verbatim>\<open>x-webhook-secret\<close>, and the payload's
  \<^verbatim>\<open>secret_key\<close>. The handler answers 401 exactly when a secret is configured and that
  value differs from it.
\<close>

theorem token_precedence:
  assumes url: "urlSearchParams rt (case reqUrl req of None \<Rightarrow> ''/'' | Some u \<Rightarrow> u)
                  (''http://'' @ orElse (getHeader req ''host'') ''localhost'') = Some params"
  shows "(\<exists>tok. extractRequestToken rt req = Some tok \<and>
            providedSecret tok (extractReplyWebhookContext rt p) =
              firstNonBlank (secretCandidates req params (extractReplyWebhookContext rt p))) \<and>
         (handlerPayload rt cfg env req p = Inl (Responded [SendJson 401 InvalidWebhookSecret]) \<longleftrightarrow>
            getWebhookSecret cfg env \<noteq> [] \<and>
            firstNonBlank (secretCandidates req params (extractReplyWebhookContext rt p)) \<noteq>
              getWebhookSecret cfg env)"
proof -
  from extractRequestToken_url [OF url, where ctx = "extractReplyWebhookContext rt p"]
  obtain tok where tok: "extractRequestToken rt req = Some tok"
    and eq: "providedSecret tok (extractReplyWebhookContext rt p) =
              firstNonBlank (secretCandidates req params (extractReplyWebhookContext rt p))"
    by blast
  from handlerPayload_401_iff [OF tok, where cfg = cfg and env = env and p = p] tok eq show ?thesis
    by simp
qed

text \<open>
  On a request with the token \<^verbatim>\<open>other\<close> in the query and the configured secret in the
  dedicated header.
\<close>

theorem token_precedence_witness:
  "urlSearchParams rt0 (case reqUrl twoTokensRequest of None \<Rightarrow> ''/'' | Some u \<Rightarrow> u)
     (''http://'' @ orElse (getHeader twoTokensRequest ''host'') ''localhost'') =
     Some [(''token'', ''other'')] \<and>
   secretCandidates twoTokensRequest [(''token'', ''other'')] replyContext =
     [JString ''other'', JNull, JString ''s3cret'', JString [], JString []] \<and>
   firstNonBlank (secretCandidates twoTokensRequest [(''token'', ''other'')] replyContext) =
     ''other'' \<and>
   handlerPayload rt0 cfgSecret env0 twoTokensRequest (asObject replyPayload) =
     Inl (Responded [SendJson 401 InvalidWebhookSecret])"
proof -
  have url: "urlSearchParams rt0 (case reqUrl twoTokensRequest of None \<Rightarrow> ''/'' | Some u \<Rightarrow> u)
     (''http://'' @ orElse (getHeader twoTokensRequest ''host'') ''localhost'') =
     Some [(''token'', ''other'')]"
    by code_simp
  have cands: "secretCandidates twoTokensRequest [(''token'', ''other'')] replyContext =
     [JString ''other'', JNull, JString ''s3cret'', JString [], JString []]"
    by code_simp
  have first: "firstNonBlank (secretCandidates twoTokensRequest [(''token'', ''other'')] replyContext) =
     ''other''"
    by code_simp
  have secret: "getWebhookSecret cfgSecret env0 = ''s3cret''"
    by code_simp
  from token_precedence [OF url, where p = "asObject replyPayload" and cfg = cfgSecret and env = env0,
      folded replyContext_def]
  have "handlerPayload rt0 cfgSecret env0 twoTokensRequest (asObject replyPayload) =
     Inl (Responded [SendJson 401 InvalidWebhookSecret])"
    unfolding first secret by simp
  with url cands first show ?thesis by blast
qed

text \<open>
  Claim C5 fails on the handler of \<^verbatim>\<open>index.ts\<close>. The claim has the dedicated header
  come before the query parameter; for a request with the configured secret in the
  header \<^verbatim>\<open>x-smartlead-secret\<close> and another token in the query, the handler compares
  the token of the query and answers 401.
\<close>

theorem query_token_before_header:
  "getWebhookSecret cfgSecret env0 = ''s3cret'' \<and>
   getHeader twoTokensRequest ''x-smartlead-secret'' = ''s3cret'' \<and>
   extractRequestToken rt0 twoTokensRequest = Some ''other'' \<and>
   trace (handler rt0 cfgSecret env0 worldOk twoTokensRequest []) =
     [SendJson 401 InvalidWebhookSecret]"
  by code_simp

subsection \<open>The event type filter\<close>

lemma isReplyEvent_no_type:
  assumes upper: "toUpperCase rt [] = []"
    and noType: "firstNonBlank [getProp p ''event_type'', getProp p ''eventType'', getProp p ''type''] = []"
  shows "eventType (extractReplyWebhookContext rt p) = []"
    and "isReplyEvent types (extractReplyWebhookContext rt p) p \<longleftrightarrow> replyLike p"
proof -
  show e: "eventType (extractReplyWebhookContext rt p) = []"
    using upper noType
    by (simp add: extractReplyWebhookContext_def Let_def firstNonEmptyString_firstNonBlank
        del: firstNonEmptyString.simps)
  show "isReplyEvent types (extractReplyWebhookContext rt p) p \<longleftrightarrow> replyLike p"
    unfolding isReplyEvent_def e
    by (simp add: replyLike_def extractReplyWebhookContext_def Let_def present_def
        firstNonEmptyString_firstNonBlank del: firstNonEmptyString.simps)
qed

text \<open>
  The heuristic of the handler of \<^verbatim>\<open>index.ts\<close>, upper-casing the empty string giving
  the empty string. For a payload in which none of \<^verbatim>\<open>event_type\<close>, \<^verbatim>\<open>eventType\<close> and \<^verbatim>\<open>type\<close> is a string
  with a character other than white space, the handler takes the event for a reply
  exactly when the payload has preview text, a correspondence object that is not empty,
  or a true \<^verbatim>\<open>time_replied\<close>; a request with such a payload that passes the check of the
  secret goes on to deduplication in that case, and is answered 202 with the ignored
  marker and no event type otherwise.
\<close>

theorem reply_heuristic:
  assumes upper: "toUpperCase rt [] = []"
    and noType: "firstNonBlank [getProp p ''event_type'', getProp p ''eventType'', getProp p ''type''] = []"
    and tok: "extractRequestToken rt req = Some tok"
    and secret: "getWebhookSecret cfg env = [] \<or>
        providedSecret tok (extractReplyWebhookContext rt p) = getWebhookSecret cfg env"
  shows "(isReplyEvent types (extractReplyWebhookContext rt p) p \<longleftrightarrow> replyLike p) \<and>
         handlerPayload rt cfg env req p =
           (if replyLike p
            then Inr (extractReplyWebhookContext rt p,
                      if logWebhookPayload cfg = JBoolean True then [LoggerInfo] else [])
            else Inl (Responded
                   ((if logWebhookPayload cfg = JBoolean True then [LoggerInfo] else []) @
                    [SendJson 202
                       (Ignored None (normalizeReplyEventTypes rt (replyEventTypes cfg)))])))"
proof -
  note no = isReplyEvent_no_type [OF upper noType]
  have "handlerPayload rt cfg env req p =
           (if replyLike p
            then Inr (extractReplyWebhookContext rt p,
                      if logWebhookPayload cfg = JBoolean True then [LoggerInfo] else [])
            else Inl (Responded
                   ((if logWebhookPayload cfg = JBoolean True then [LoggerInfo] else []) @
                    [SendJson 202
                       (Ignored None (normalizeReplyEventTypes rt (replyEventTypes cfg)))])))"
    using tok secret unfolding handlerPayload_def Let_def no
    by auto
  with no(2) show ?thesis by blast
qed

text \<open>
  On a payload with \<^verbatim>\<open>time_replied\<close> only, which goes on, and on one with a stats
  identifier only, which is ignored.
\<close>

theorem reply_heuristic_witness:
  "toUpperCase rt0 [] = [] \<and>
   extractRequestToken rt0 timeRepliedRequest = Some [] \<and>
   getWebhookSecret cfg0 env0 = [] \<and>
   replyLike (asObject timeRepliedPayload) \<and>
   handlerPayload rt0 cfg0 env0 timeRepliedRequest (asObject timeRepliedPayload) =
     Inr (timeRepliedContext, []) \<and>
   \<not> replyLike (asObject statsOnlyPayload) \<and>
   handlerPayload rt0 cfg0 env0 statsOnlyRequest (asObject statsOnlyPayload) =
     Inl (Responded [SendJson 202 (Ignored None [''EMAIL_REPLY''])])"
proof -
  have upper: "toUpperCase rt0 [] = []"
    by code_simp
  have noType1: "firstNonBlank [getProp (asObject timeRepliedPayload) ''event_type'',
      getProp (asObject timeRepliedPayload) ''eventType'',
      getProp (asObject timeRepliedPayload) ''type''] = []"
    by code_simp
  have noType2: "firstNonBlank [getProp (asObject statsOnlyPayload) ''event_type'',
      getProp (asObject statsOnlyPayload) ''eventType'',
      getProp (asObject statsOnlyPayload) ''type''] = []"
    by code_simp
  have tok1: "extractRequestToken rt0 timeRepliedRequest = Some []"
    by code_simp
  have tok2: "extractRequestToken rt0 statsOnlyRequest = Some []"
    by code_simp
  have secret: "getWebhookSecret cfg0 env0 = []"
    by code_simp
  have like1: "replyLike (asObject timeRepliedPayload)"
    by code_simp
  have like2: "\<not> replyLike (asObject statsOnlyPayload)"
    by code_simp
  have log: "logWebhookPayload cfg0 \<noteq> JBoolean True"
    by code_simp
  have types: "normalizeReplyEventTypes rt0 (replyEventTypes cfg0) = [''EMAIL_REPLY'']"
    by code_simp
  from reply_heuristic [OF upper noType1 tok1 disjI1 [OF secret], folded timeRepliedContext_def]
  have a: "handlerPayload rt0 cfg0 env0 timeRepliedRequest (asObject timeRepliedPayload) =
     Inr (timeRepliedContext, [])"
    using like1 log by simp
  from reply_heuristic [OF upper noType2 tok2 disjI1 [OF secret]]
  have b: "handlerPayload rt0 cfg0 env0 statsOnlyRequest (asObject statsOnlyPayload) =
     Inl (Responded [SendJson 202 (Ignored None [''EMAIL_REPLY''])])"
    using like2 log types by simp
  from upper tok1 secret like1 like2 a b show ?thesis by blast
qed

text \<open>
  Claim C3 fails on the handler of \<^verbatim>\<open>index.ts\<close>. The claim takes a payload without
  event type for a reply when it has a stats identifier; the handler answers the payload
  whose only property is the stats identifier \<^verbatim>\<open>s-1\<close> with 202 and the ignored marker,
  and forwards nothing.
\<close>

theorem stats_id_alone_is_ignored:
  "statsId (extractReplyWebhookContext rt0 (asObject statsOnlyPayload)) = Some ''s-1'' \<and>
   eventType (extractReplyWebhookContext rt0 (asObject statsOnlyPayload)) = [] \<and>
   readJsonBody rt0 statsOnlyRequest = Inr (asObject statsOnlyPayload) \<and>
   trace (handler rt0 cfg0 env0 worldOk statsOnlyRequest []) =
     [SendJson 202 (Ignored None [''EMAIL_REPLY''])]"
  by code_simp

subsection \<open>The handler, stage by stage\<close>

lemma cacheHas_cacheSet: "cacheHas (cacheSet key t seen) key"
  by (simp add: cacheHas_def cacheSet_def update_conv')

lemma map_of_cacheSet: "map_of (cacheSet key t seen) key = Some t"
  by (simp add: cacheSet_def update_conv')

lemma cacheHas_prune:
  "map_of seen key = Some t \<Longrightarrow> \<not> t < now - ttl * 1000 \<Longrightarrow>
   cacheHas (pruneSeenWebhookEvents ttl now seen) key"
  by (simp add: cacheHas_def pruneSeenWebhookEvents_def Let_def map_of_filter_in)

lemma handlerBack_duplicate:
  "cacheHas (pruneSeenWebhookEvents (getDedupeTtlSeconds rt cfg env) (nowAtPrune w) seen)
      (makeWebhookEventKey rt ctx) \<Longrightarrow>
   handlerBack rt cfg env w seen ctx logged =
     returned (logged @ [SendJson 200 (Duplicate (makeWebhookEventKey rt ctx))])
       (pruneSeenWebhookEvents (getDedupeTtlSeconds rt cfg env) (nowAtPrune w) seen)"
  by (simp add: handlerBack_def Let_def)

lemma handlerBack_fresh:
  "\<not> cacheHas (pruneSeenWebhookEvents (getDedupeTtlSeconds rt cfg env) (nowAtPrune w) seen)
      (makeWebhookEventKey rt ctx) \<Longrightarrow>
   handlerBack rt cfg env w seen ctx logged =
     returned
       (logged @ [CacheSet (makeWebhookEventKey rt ctx) (nowAtSet w)] @
        fst (forwardToOpenClawAgentHook cfg env (fetchOutcome w)) @
        (case snd (forwardToOpenClawAgentHook cfg env (fetchOutcome w)) of
           Inr status \<Rightarrow>
             [SendJson 202
                (Forwarded (orElse (eventType ctx) ''EMAIL_REPLY'') (campaignId ctx)
                   (leadId ctx) (leadEmail ctx) status)]
         | Inl err \<Rightarrow> [LoggerError, SendJson 500 (HookForwardFailed err)]))
       (cacheSet (makeWebhookEventKey rt ctx) (nowAtSet w)
          (pruneSeenWebhookEvents (getDedupeTtlSeconds rt cfg env) (nowAtPrune w) seen))"
  by (simp add: handlerBack_def Let_def split: prod.splits sum.splits)

lemma handler_admitted:
  "handlerFront rt cfg env req = Inr (ctx, logged) \<Longrightarrow>
   handler rt cfg env w req seen = handlerBack rt cfg env w seen ctx logged"
  by (simp add: handler_def)

lemma forward_effects:
  "fst (forwardToOpenClawAgentHook cfg env outcome) =
     (if getOpenClawHookUrl cfg env \<noteq> [] \<and> getOpenClawHookToken cfg env \<noteq> []
      then [HookFetch (getOpenClawHookUrl cfg env) (getOpenClawHookToken cfg env)] else [])"
  by (simp add: forwardToOpenClawAgentHook_def Let_def split: fetch_outcome.splits)

lemma forward_success:
  "snd (forwardToOpenClawAgentHook cfg env outcome) = Inr status \<longleftrightarrow>
     getOpenClawHookUrl cfg env \<noteq> [] \<and> getOpenClawHookToken cfg env \<noteq> [] \<and>
     (\<exists>json textRejects. outcome = Responds status json textRejects \<and> (json \<or> \<not> textRejects) \<and>
        200 \<le> status \<and> status \<le> 299)"
  by (auto simp: forwardToOpenClawAgentHook_def Let_def split: fetch_outcome.splits)

lemma responses_append: "responses (xs @ ys) = responses xs @ responses ys"
  by (simp add: responses_def)

lemma hookFetches_append: "hookFetches (xs @ ys) = hookFetches xs @ hookFetches ys"
  by (simp add: hookFetches_def)

lemma front_logged:
  "handlerFront rt cfg env req = Inr (ctx, logged) \<Longrightarrow> logged = [] \<or> logged = [LoggerInfo]"
  by (auto simp: handlerFront_def handlerPayload_def Let_def split: if_splits sum.splits option.splits)

lemma hookFetches_logged:
  "handlerFront rt cfg env req = Inr (ctx, logged) \<Longrightarrow> hookFetches logged = []"
  by (auto simp: hookFetches_def dest: front_logged)

lemma responses_logged:
  "handlerFront rt cfg env req = Inr (ctx, logged) \<Longrightarrow> responses logged = []"
  by (auto simp: responses_def dest: front_logged)

lemma responses_forward: "responses (fst (forwardToOpenClawAgentHook cfg env outcome)) = []"
  by (simp add: forward_effects responses_def)

lemma responses_simps:
  "responses [] = []"
  "responses (SendJson status b # es) = (status, b) # responses es"
  "responses (LoggerInfo # es) = responses es"
  "responses (LoggerError # es) = responses es"
  "responses (CacheSet k t # es) = responses es"
  "responses (HookFetch u tok # es) = responses es"
  by (simp_all add: responses_def)

lemma hookFetches_simps:
  "hookFetches [] = []"
  "hookFetches (SendJson status b # es) = hookFetches es"
  "hookFetches (LoggerInfo # es) = hookFetches es"
  "hookFetches (LoggerError # es) = hookFetches es"
  "hookFetches (CacheSet k t # es) = hookFetches es"
  "hookFetches (HookFetch u tok # es) = HookFetch u tok # hookFetches es"
  by (simp_all add: hookFetches_def)

text \<open>A key that a run recorded is still in the cache when a later run prunes it in time.\<close>

lemma recorded_then_duplicate:
  assumes second: "handlerFront rt cfg env req2 = Inr (ctx2, logged2)"
    and key: "makeWebhookEventKey rt ctx2 = k"
    and recorded: "map_of seen k = Some t"
    and window: "nowAtPrune w2 - t \<le> getDedupeTtlSeconds rt cfg env * 1000"
  shows "trace (handler rt cfg env w2 req2 seen) = logged2 @ [SendJson 200 (Duplicate k)]"
proof -
  have "\<not> t < nowAtPrune w2 - getDedupeTtlSeconds rt cfg env * 1000"
    using window by simp
  with recorded have
    "cacheHas (pruneSeenWebhookEvents (getDedupeTtlSeconds rt cfg env) (nowAtPrune w2) seen) k"
    by (rule cacheHas_prune)
  with key show ?thesis
    by (simp add: handler_admitted [OF second] handlerBack_duplicate returned_def)
qed


text \<open>A run that reaches the forwarder: the cache, the fetches and the responses.\<close>

lemma handler_fresh:
  assumes front: "handlerFront rt cfg env req = Inr (ctx, logged)"
    and fresh: "\<not> cacheHas
        (pruneSeenWebhookEvents (getDedupeTtlSeconds rt cfg env) (nowAtPrune w) seen)
        (makeWebhookEventKey rt ctx)"
  shows "map_of (seenAfter (handler rt cfg env w req seen)) (makeWebhookEventKey rt ctx) =
           Some (nowAtSet w)"
    and "hookFetches (trace (handler rt cfg env w req seen)) =
           fst (forwardToOpenClawAgentHook cfg env (fetchOutcome w))"
    and "length (responses (trace (handler rt cfg env w req seen))) = 1"
proof -
  show "map_of (seenAfter (handler rt cfg env w req seen)) (makeWebhookEventKey rt ctx) =
           Some (nowAtSet w)"
    by (simp add: handler_admitted [OF front] handlerBack_fresh [OF fresh] returned_def
        map_of_cacheSet)
  show "hookFetches (trace (handler rt cfg env w req seen)) =
           fst (forwardToOpenClawAgentHook cfg env (fetchOutcome w))"
    by (cases "snd (forwardToOpenClawAgentHook cfg env (fetchOutcome w))")
       (simp_all add: handler_admitted [OF front] handlerBack_fresh [OF fresh] returned_def
          hookFetches_append hookFetches_logged [OF front] hookFetches_simps forward_effects)
  show "length (responses (trace (handler rt cfg env w req seen))) = 1"
    by (cases "snd (forwardToOpenClawAgentHook cfg env (fetchOutcome w))")
       (simp_all add: handler_admitted [OF front] handlerBack_fresh [OF fresh] returned_def
          responses_append responses_logged [OF front] responses_simps responses_forward)
qed

subsection \<open>The response and the forward call\<close>

text \<open>
  The handler of \<^verbatim>\<open>index.ts\<close> waits for the forwarder before it answers. For every
  request that passes validation and the event type filter and whose key is not in the
  cache, it stores the key, then calls the forwarder and waits for it, and only then
  writes its one response: 202 with the status the hook returned when the forwarder
  returns, 500 with the error \<^verbatim>\<open>hook_forward_failed\<close>, after a line in the error log,
  when the forwarder throws.
\<close>

theorem forward_awaited:
  assumes front: "handlerFront rt cfg env req = Inr (ctx, logged)"
    and fresh: "\<not> cacheHas
        (pruneSeenWebhookEvents (getDedupeTtlSeconds rt cfg env) (nowAtPrune w) seen)
        (makeWebhookEventKey rt ctx)"
  shows "trace (handler rt cfg env w req seen) =
           logged @ [CacheSet (makeWebhookEventKey rt ctx) (nowAtSet w)] @
           fst (forwardToOpenClawAgentHook cfg env (fetchOutcome w)) @
           (case snd (forwardToOpenClawAgentHook cfg env (fetchOutcome w)) of
              Inr status \<Rightarrow>
                [SendJson 202
                   (Forwarded (orElse (eventType ctx) ''EMAIL_REPLY'') (campaignId ctx)
                      (leadId ctx) (leadEmail ctx) status)]
            | Inl err \<Rightarrow> [LoggerError, SendJson 500 (HookForwardFailed err)]) \<and>
         responses (trace (handler rt cfg env w req seen)) =
           (case snd (forwardToOpenClawAgentHook cfg env (fetchOutcome w)) of
              Inr status \<Rightarrow>
                [(202, Forwarded (orElse (eventType ctx) ''EMAIL_REPLY'') (campaignId ctx)
                      (leadId ctx) (leadEmail ctx) status)]
            | Inl err \<Rightarrow> [(500, HookForwardFailed err)])"
proof -
  have t: "trace (handler rt cfg env w req seen) =
           logged @ [CacheSet (makeWebhookEventKey rt ctx) (nowAtSet w)] @
           fst (forwardToOpenClawAgentHook cfg env (fetchOutcome w)) @
           (case snd (forwardToOpenClawAgentHook cfg env (fetchOutcome w)) of
              Inr status \<Rightarrow>
                [SendJson 202
                   (Forwarded (orElse (eventType ctx) ''EMAIL_REPLY'') (campaignId ctx)
                      (leadId ctx) (leadEmail ctx) status)]
            | Inl err \<Rightarrow> [LoggerError, SendJson 500 (HookForwardFailed err)])"
    by (simp add: handler_admitted [OF front] handlerBack_fresh [OF fresh] returned_def)
  have "responses (trace (handler rt cfg env w req seen)) =
           (case snd (forwardToOpenClawAgentHook cfg env (fetchOutcome w)) of
              Inr status \<Rightarrow>
                [(202, Forwarded (orElse (eventType ctx) ''EMAIL_REPLY'') (campaignId ctx)
                      (leadId ctx) (leadEmail ctx) status)]
            | Inl err \<Rightarrow> [(500, HookForwardFailed err)])"
    unfolding t
    by (cases "snd (forwardToOpenClawAgentHook cfg env (fetchOutcome w))")
       (simp_all add: responses_append responses_logged [OF front] responses_forward
          responses_simps)
  with t show ?thesis by blast
qed

text \<open>The first delivery of the sample reply, the hook answering 200.\<close>

theorem forward_awaited_witness:
  "handlerFront rt0 cfg0 env0 replyRequest = Inr (replyContext, []) \<and>
   trace firstRun =
     [CacheSet ''sha256:s-1'' 1000,
      HookFetch ''http://127.0.0.1:18789/hooks/agent'' ''hook-token'',
      SendJson 202 (Forwarded ''EMAIL_REPLY'' None None (Some []) 200)] \<and>
   responses (trace firstRun) = [(202, Forwarded ''EMAIL_REPLY'' None None (Some []) 200)]"
proof -
  have front: "handlerFront rt0 cfg0 env0 replyRequest = Inr (replyContext, [])"
    by code_simp
  have fresh: "\<not> cacheHas
      (pruneSeenWebhookEvents (getDedupeTtlSeconds rt0 cfg0 env0) (nowAtPrune worldOk) [])
      (makeWebhookEventKey rt0 replyContext)"
    by code_simp
  have key: "makeWebhookEventKey rt0 replyContext = ''sha256:s-1''"
    by code_simp
  have fwd: "forwardToOpenClawAgentHook cfg0 env0 (fetchOutcome worldOk) =
      ([HookFetch ''http://127.0.0.1:18789/hooks/agent'' ''hook-token''], Inr 200)"
    by code_simp
  have f1: "orElse (eventType replyContext) ''EMAIL_REPLY'' = ''EMAIL_REPLY''"
    by code_simp
  have f2: "campaignId replyContext = None"
    by code_simp
  have f3: "leadId replyContext = None"
    by code_simp
  have f4: "leadEmail replyContext = Some []"
    by code_simp
  have f5: "nowAtSet worldOk = 1000"
    by code_simp
  note run = forward_awaited [OF front fresh, folded firstRun_def,
      unfolded key fwd f1 f2 f3 f4 f5, simplified]
  from run front show ?thesis by blast
qed

text \<open>
  Claim C1 fails on the handler of \<^verbatim>\<open>index.ts\<close>. The claim has the 202 sent before
  the forward call begins and no failure of that call reaching the caller; for the
  sample reply with the hook down, the handler sends its request to the hook before any
  response, and its response is 500.
\<close>

theorem forward_failure_is_500:
  "trace failedRun =
     [CacheSet ''sha256:s-1'' 1000,
      HookFetch ''http://127.0.0.1:18789/hooks/agent'' ''hook-token'',
      LoggerError,
      SendJson 500 (HookForwardFailed FetchRejected)]"
  by code_simp

subsection \<open>Deduplication\<close>



text \<open>
  Claim C9. When the forwarder throws in a run that reached it, the run stored the key
  before the forwarder was called, it answers 500, and the key stays in the cache with
  the time of the run; the same request again, pruned no later than the time to live
  after that, is answered 200 as a duplicate and nothing is sent to the hook.
\<close>

theorem failed_forward_keeps_key:
  assumes front: "handlerFront rt cfg env req = Inr (ctx, logged)"
    and fresh: "\<not> cacheHas
        (pruneSeenWebhookEvents (getDedupeTtlSeconds rt cfg env) (nowAtPrune w1) seen)
        (makeWebhookEventKey rt ctx)"
    and failed: "snd (forwardToOpenClawAgentHook cfg env (fetchOutcome w1)) = Inl err"
    and window: "nowAtPrune w2 - nowAtSet w1 \<le> getDedupeTtlSeconds rt cfg env * 1000"
  shows "let r1 = handler rt cfg env w1 req seen;
             r2 = handler rt cfg env w2 req (seenAfter r1);
             key = makeWebhookEventKey rt ctx
         in trace r1 =
              logged @ [CacheSet key (nowAtSet w1)] @
              fst (forwardToOpenClawAgentHook cfg env (fetchOutcome w1)) @
              [LoggerError, SendJson 500 (HookForwardFailed err)] \<and>
            map_of (seenAfter r1) key = Some (nowAtSet w1) \<and>
            trace r2 = logged @ [SendJson 200 (Duplicate key)] \<and>
            hookFetches (trace r2) = []"
proof -
  let ?r1 = "handler rt cfg env w1 req seen"
  let ?r2 = "handler rt cfg env w2 req (seenAfter ?r1)"
  let ?key = "makeWebhookEventKey rt ctx"
  have t1: "trace ?r1 =
      logged @ [CacheSet ?key (nowAtSet w1)] @
      fst (forwardToOpenClawAgentHook cfg env (fetchOutcome w1)) @
      [LoggerError, SendJson 500 (HookForwardFailed err)]"
    by (simp add: handler_admitted [OF front] handlerBack_fresh [OF fresh] returned_def failed)
  have recorded: "map_of (seenAfter ?r1) ?key = Some (nowAtSet w1)"
    by (rule handler_fresh(1) [OF front fresh])
  have t2: "trace ?r2 = logged @ [SendJson 200 (Duplicate ?key)]"
    by (rule recorded_then_duplicate [OF front refl recorded window])
  have f2: "hookFetches (trace ?r2) = []"
    by (simp add: t2 hookFetches_append hookFetches_logged [OF front] hookFetches_simps)
  show ?thesis
    using t1 recorded t2 f2 by (simp add: Let_def)
qed

text \<open>The sample reply delivered with the hook down, and again a minute later.\<close>

theorem failed_forward_keeps_key_witness:
  "handlerFront rt0 cfg0 env0 replyRequest = Inr (replyContext, []) \<and>
   snd (forwardToOpenClawAgentHook cfg0 env0 (fetchOutcome worldDown)) = Inl FetchRejected \<and>
   trace failedRun =
     [CacheSet ''sha256:s-1'' 1000,
      HookFetch ''http://127.0.0.1:18789/hooks/agent'' ''hook-token'',
      LoggerError, SendJson 500 (HookForwardFailed FetchRejected)] \<and>
   map_of (seenAfter failedRun) ''sha256:s-1'' = Some 1000 \<and>
   trace (handler rt0 cfg0 env0 worldLater replyRequest (seenAfter failedRun)) =
     [SendJson 200 (Duplicate ''sha256:s-1'')] \<and>
   hookFetches (trace (handler rt0 cfg0 env0 worldLater replyRequest (seenAfter failedRun))) = []"
proof -
  have front: "handlerFront rt0 cfg0 env0 replyRequest = Inr (replyContext, [])"
    by code_simp
  have fresh: "\<not> cacheHas
      (pruneSeenWebhookEvents (getDedupeTtlSeconds rt0 cfg0 env0) (nowAtPrune worldDown) [])
      (makeWebhookEventKey rt0 replyContext)"
    by code_simp
  have failed: "snd (forwardToOpenClawAgentHook cfg0 env0 (fetchOutcome worldDown)) = Inl FetchRejected"
    by code_simp
  have window: "nowAtPrune worldLater - nowAtSet worldDown \<le> getDedupeTtlSeconds rt0 cfg0 env0 * 1000"
    by code_simp
  have v1: "fst (forwardToOpenClawAgentHook cfg0 env0 (fetchOutcome worldDown)) =
        [HookFetch ''http://127.0.0.1:18789/hooks/agent'' ''hook-token'']"
    by code_simp
  have v2: "makeWebhookEventKey rt0 replyContext = ''sha256:s-1''"
    by code_simp
  have v3: "nowAtSet worldDown = 1000"
    by code_simp
  note run = failed_forward_keeps_key [OF front fresh failed window,
      unfolded Let_def v1 v2 v3 append.simps, folded failedRun_def]
  from run front failed show ?thesis by blast
qed

subsection \<open>Bodies that are blank or not an object\<close>

lemma readChunks_within:
  "sz + int (length (concat bufs)) \<le> MAX_WEBHOOK_BODY_BYTES \<Longrightarrow>
   readChunks acc sz bufs = Inr (acc @ bufs)"
proof (induction bufs arbitrary: acc sz)
  case Nil
  then show ?case by simp
next
  case (Cons buf rest)
  have le: "sz + int (length buf) \<le> MAX_WEBHOOK_BODY_BYTES"
    using Cons.prems by simp
  have "sz + int (length buf) + int (length (concat rest)) \<le> MAX_WEBHOOK_BODY_BYTES"
    using Cons.prems by simp
  from Cons.IH [OF this] le show ?case by (simp add: Let_def)
qed

lemma readRequestBody_within:
  "int (length (concat (reqChunks req))) \<le> MAX_WEBHOOK_BODY_BYTES \<Longrightarrow>
   readRequestBody rt req = Inr (utf8ToString rt (concat (reqChunks req)))"
  by (simp add: readRequestBody_def readChunks_within)

lemma asRecord_non_object: "\<not> isObject v \<Longrightarrow> asRecord v = []"
  by (cases v) (simp_all add: asRecord_def isObject_def)

lemma readJsonBody_empty_object:
  assumes size: "int (length (concat (reqChunks req))) \<le> MAX_WEBHOOK_BODY_BYTES"
    and body: "trim (utf8ToString rt (concat (reqChunks req))) = [] \<or>
        (\<exists>v. JSON_parse rt (utf8ToString rt (concat (reqChunks req))) = Some v \<and> \<not> isObject v)"
  shows "readJsonBody rt req = Inr []"
  using body
proof
  assume "trim (utf8ToString rt (concat (reqChunks req))) = []"
  then show ?thesis
    by (simp add: readJsonBody_def readRequestBody_within [OF size])
next
  assume "\<exists>v. JSON_parse rt (utf8ToString rt (concat (reqChunks req))) = Some v \<and> \<not> isObject v"
  then obtain v where "JSON_parse rt (utf8ToString rt (concat (reqChunks req))) = Some v"
    and "\<not> isObject v"
    by blast
  then show ?thesis
    by (simp add: readJsonBody_def readRequestBody_within [OF size] asRecord_non_object)
qed

lemma payload_no_400:
  "handlerPayload rt cfg env req p = Inl (Responded fx) \<Longrightarrow> 400 \<notin> fst ` set (responses fx)"
  by (auto simp: handlerPayload_def Let_def responses_simps responses_def
      split: option.splits if_splits)

lemma back_no_400:
  "responses logged = [] \<Longrightarrow>
   400 \<notin> fst ` set (responses (trace (handlerBack rt cfg env w seen ctx logged)))"
  by (auto simp: handlerBack_def Let_def returned_def responses_def
      forwardToOpenClawAgentHook_def
      split: prod.splits sum.splits if_splits fetch_outcome.splits)

text \<open>
  Claim C10. A POST request whose body is within the size limit and, decoded, is empty
  or white space only, or is JSON text for a value that is not an object, is read as the
  empty object: the handler goes on as it does for the payload \<^verbatim>\<open>{}\<close>, and no response
  of the run has status 400.
\<close>

theorem blank_or_non_object_body:
  assumes post: "requestMethod rt req = ''POST''"
    and size: "int (length (concat (reqChunks req))) \<le> MAX_WEBHOOK_BODY_BYTES"
    and body: "trim (utf8ToString rt (concat (reqChunks req))) = [] \<or>
        (\<exists>v. JSON_parse rt (utf8ToString rt (concat (reqChunks req))) = Some v \<and> \<not> isObject v)"
  shows "readJsonBody rt req = Inr [] \<and>
         handlerFront rt cfg env req = handlerPayload rt cfg env req [] \<and>
         400 \<notin> fst ` set (responses (trace (handler rt cfg env w req seen)))"
proof -
  have empty: "readJsonBody rt req = Inr []"
    by (rule readJsonBody_empty_object [OF size body])
  have front: "handlerFront rt cfg env req = handlerPayload rt cfg env req []"
    using post by (simp add: handlerFront_def Let_def empty)
  have "400 \<notin> fst ` set (responses (trace (handler rt cfg env w req seen)))"
  proof (cases "handlerFront rt cfg env req")
    case (Inl e)
    show ?thesis
    proof (cases e)
      case (Responded fx)
      with Inl front have "handlerPayload rt cfg env req [] = Inl (Responded fx)" by simp
      from payload_no_400 [OF this] Inl Responded show ?thesis
        by (simp add: handler_def returned_def)
    next
      case Thrown
      with Inl show ?thesis by (simp add: handler_def responses_simps)
    qed
  next
    case (Inr r)
    obtain ctx logged where r: "r = (ctx, logged)" by (cases r)
    with Inr have f: "handlerFront rt cfg env req = Inr (ctx, logged)" by simp
    from back_no_400 [OF responses_logged [OF f]] f show ?thesis
      by (simp add: handler_def)
  qed
  with empty front show ?thesis by blast
qed

text \<open>On a body of two spaces and on the body \<^verbatim>\<open>[]\<close>.\<close>

theorem blank_or_non_object_body_witness:
  "requestMethod rt0 blankBodyRequest = ''POST'' \<and>
   trim (utf8ToString rt0 (concat (reqChunks blankBodyRequest))) = [] \<and>
   readJsonBody rt0 blankBodyRequest = Inr [] \<and>
   JSON_parse rt0 (utf8ToString rt0 (concat (reqChunks arrayBodyRequest))) = Some (JArray []) \<and>
   readJsonBody rt0 arrayBodyRequest = Inr [] \<and>
   trace (handler rt0 cfg0 env0 worldOk blankBodyRequest []) =
     [SendJson 202 (Ignored None [''EMAIL_REPLY''])] \<and>
   trace (handler rt0 cfg0 env0 worldOk arrayBodyRequest []) =
     [SendJson 202 (Ignored None [''EMAIL_REPLY''])]"
proof -
  have post1: "requestMethod rt0 blankBodyRequest = ''POST''"
    by code_simp
  have post2: "requestMethod rt0 arrayBodyRequest = ''POST''"
    by code_simp
  have size1: "int (length (concat (reqChunks blankBodyRequest))) \<le> MAX_WEBHOOK_BODY_BYTES"
    by code_simp
  have size2: "int (length (concat (reqChunks arrayBodyRequest))) \<le> MAX_WEBHOOK_BODY_BYTES"
    by code_simp
  have blank: "trim (utf8ToString rt0 (concat (reqChunks blankBodyRequest))) = []"
    by code_simp
  have parsed: "JSON_parse rt0 (utf8ToString rt0 (concat (reqChunks arrayBodyRequest))) =
      Some (JArray [])"
    by code_simp
  have array: "\<not> isObject (JArray [])"
    by code_simp
  from parsed array
  have body2: "trim (utf8ToString rt0 (concat (reqChunks arrayBodyRequest))) = [] \<or>
      (\<exists>v. JSON_parse rt0 (utf8ToString rt0 (concat (reqChunks arrayBodyRequest))) = Some v \<and>
           \<not> isObject v)"
    by blast
  have t1: "trace (handler rt0 cfg0 env0 worldOk blankBodyRequest []) =
     [SendJson 202 (Ignored None [''EMAIL_REPLY''])]"
    by code_simp
  have t2: "trace (handler rt0 cfg0 env0 worldOk arrayBodyRequest []) =
     [SendJson 202 (Ignored None [''EMAIL_REPLY''])]"
    by code_simp
  from blank_or_non_object_body [OF post1 size1 disjI1 [OF blank]]
  have a: "readJsonBody rt0 blankBodyRequest = Inr []"
    by blast
  from blank_or_non_object_body [OF post2 size2 body2]
  have b: "readJsonBody rt0 arrayBodyRequest = Inr []"
    by blast
  from post1 blank parsed a b t1 t2 show ?thesis by blast
qed

end
